theory Spec2Isabelle
  imports Complex_Main "HOL-Library.Product_Lexorder"
begin

section \<open>Python values\<close>

text \<open>
  The monitor builds plain Python dictionaries.  A dictionary is an association list in
  insertion order, looked up with \<open>map_of\<close>; a key that was never stored is absent
  (\<open>map_of d k = None\<close>), which is how the source tells an omitted field from a
  zero one.

  A Python float is an IEEE 754 double.  A finite one is given by its exact value, a
  rational number; the three special values are constructors of their own.  Every
  operation that produces a float rounds its exact result to the nearest double
  (\<open>to_double\<close> below), so the values here are the values Python computes.  The sign
  of a zero is not kept.
\<close>

datatype pyfloat = Fin rat | PosInf | NegInf | NaN

datatype pyval =
    PInt int
  | PFloat pyfloat
  | PStr string
  | PBool bool
  | PNone
  | PList "pyval list"
  | PDict "(string \<times> pyval) list"

type_synonym pydict = "(string \<times> pyval) list"

datatype pyerr =
    ValueError | IndexError | KeyError | TypeError | OSError | ZeroDivisionError
  | OverflowError | CalledProcessError | NoSuchProcess | AccessDenied | ZombieProcess

text \<open>
  An operation that may raise, followed by what is done with its value: the first
  exception ends the sequence.
\<close>

definition bind_err :: "pyerr + 'a \<Rightarrow> ('a \<Rightarrow> pyerr + 'b) \<Rightarrow> pyerr + 'b" where
  "bind_err x f = (case x of Inl e \<Rightarrow> Inl e | Inr v \<Rightarrow> f v)"

text \<open>\<open>d[k] = v\<close>: replace the value of an existing key in place, else append.\<close>

fun dict_set :: "pydict \<Rightarrow> string \<Rightarrow> pyval \<Rightarrow> pydict" where
  "dict_set [] k v = [(k, v)]"
| "dict_set ((k', v') # d) k v = (if k' = k then (k, v) # d else (k', v') # dict_set d k v)"

text \<open>\<open>d.update(e)\<close>.\<close>

fun dict_update :: "pydict \<Rightarrow> pydict \<Rightarrow> pydict" where
  "dict_update d [] = d"
| "dict_update d ((k, v) # e) = dict_update (dict_set d k v) e"

section \<open>Python string operations\<close>

text \<open>
  A string is a list of characters, and a character stands for the Unicode code point of
  its number, from 0 to 255.  \<open>str.isspace\<close> on these code points: the ASCII blanks and
  separators, U+0085 and U+00A0.
\<close>

definition py_isspace :: "char \<Rightarrow> bool" where
  "py_isspace c = (c \<in> set [CHR '' '', CHR 0x09, CHR 0x0A, CHR 0x0B, CHR 0x0C, CHR 0x0D,
                              CHR 0x1C, CHR 0x1D, CHR 0x1E, CHR 0x1F, CHR 0x85, CHR 0xA0])"

text \<open>
  The decimal digits, which \<open>int()\<close> and \<open>float()\<close> read, and the characters for
  which \<open>str.isdigit\<close> holds: the decimal digits and the superscripts U+00B2, U+00B3
  and U+00B9.
\<close>

definition is_digit :: "char \<Rightarrow> bool" where
  "is_digit c = (48 \<le> (of_char c :: nat) \<and> (of_char c :: nat) \<le> 57)"

definition digit_val :: "char \<Rightarrow> nat" where
  "digit_val c = (of_char c :: nat) - 48"

definition isdigit_char :: "char \<Rightarrow> bool" where
  "isdigit_char c = (is_digit c \<or> c \<in> set [CHR 0xB2, CHR 0xB3, CHR 0xB9])"

text \<open>\<open>s.strip()\<close> and \<open>s.strip(chars)\<close>.\<close>

definition py_strip :: "string \<Rightarrow> string" where
  "py_strip s = rev (dropWhile py_isspace (rev (dropWhile py_isspace s)))"

definition py_strip_chars :: "string \<Rightarrow> string \<Rightarrow> string" where
  "py_strip_chars cs s =
     rev (dropWhile (\<lambda>c. c \<in> set cs) (rev (dropWhile (\<lambda>c. c \<in> set cs) s)))"

definition py_startswith :: "string \<Rightarrow> string \<Rightarrow> bool" where
  "py_startswith s pre = (take (length pre) s = pre)"

text \<open>\<open>s.lower()\<close>.\<close>

definition lower_char :: "char \<Rightarrow> char" where
  "lower_char c =
     (case map_of (zip ''ABCDEFGHIJKLMNOPQRSTUVWXYZ'' ''abcdefghijklmnopqrstuvwxyz'') c of
        Some l \<Rightarrow> l
      | None \<Rightarrow>
          (if 192 \<le> (of_char c :: nat) \<and> (of_char c :: nat) \<le> 222 \<and> (of_char c :: nat) \<noteq> 215
           then char_of ((of_char c :: nat) + 32) else c))"

definition py_lower :: "string \<Rightarrow> string" where
  "py_lower s = map lower_char s"

text \<open>\<open>s.isdigit()\<close>.\<close>

definition py_isdigit :: "string \<Rightarrow> bool" where
  "py_isdigit s = (s \<noteq> [] \<and> list_all isdigit_char s)"

text \<open>
  \<open>s.split(sep)\<close> for a non-empty separator: scan from the left, cut at every
  occurrence of \<open>sep\<close>, resume behind it.  \<open>cur\<close> is the field being read.
\<close>

fun split_sep :: "string \<Rightarrow> string \<Rightarrow> string \<Rightarrow> string list" where
  "split_sep sep cur [] = [cur]"
| "split_sep sep cur (c # cs) =
     (if sep \<noteq> [] \<and> py_startswith (c # cs) sep
      then cur # split_sep sep [] (drop (length sep - 1) cs)
      else split_sep sep (cur @ [c]) cs)"

definition py_split :: "string \<Rightarrow> string \<Rightarrow> string list" where
  "py_split s sep = split_sep sep [] s"

text \<open>\<open>s.replace(old, new)\<close> for a non-empty \<open>old\<close>.\<close>

fun py_replace :: "string \<Rightarrow> string \<Rightarrow> string \<Rightarrow> string" where
  "py_replace [] old new = []"
| "py_replace (c # cs) old new =
     (if old \<noteq> [] \<and> py_startswith (c # cs) old
      then new @ py_replace (drop (length old - 1) cs) old new
      else c # py_replace cs old new)"

text \<open>\<open>s.split()\<close>: the maximal runs of non-whitespace characters.\<close>

fun split_ws :: "string \<Rightarrow> string \<Rightarrow> string list" where
  "split_ws cur [] = (if cur = [] then [] else [cur])"
| "split_ws cur (c # cs) =
     (if py_isspace c then (if cur = [] then split_ws [] cs else cur # split_ws [] cs)
      else split_ws (cur @ [c]) cs)"

definition py_split_ws :: "string \<Rightarrow> string list" where
  "py_split_ws s = split_ws [] s"

text \<open>
  \<open>s.split(None, n)\<close>: at most \<open>n\<close> words are cut off; what follows them, from its
  first non-whitespace character to the end of the string, is the last element.
\<close>

fun split_ws_max :: "nat \<Rightarrow> string \<Rightarrow> string \<Rightarrow> string list" where
  "split_ws_max n cur [] = (if cur = [] then [] else [cur])"
| "split_ws_max n cur (c # cs) =
     (if cur = [] then
        (if py_isspace c then split_ws_max n [] cs
         else if n = 0 then [c # cs]
         else split_ws_max n [c] cs)
      else
        (if py_isspace c then cur # split_ws_max (n - 1) [] cs
         else split_ws_max n (cur @ [c]) cs))"

definition py_split_ws_max :: "string \<Rightarrow> nat \<Rightarrow> string list" where
  "py_split_ws_max s n = split_ws_max n [] s"

text \<open>\<open>sep.join(xs)\<close>.\<close>

fun py_join :: "string \<Rightarrow> string list \<Rightarrow> string" where
  "py_join sep [] = []"
| "py_join sep [x] = x"
| "py_join sep (x # y # xs) = x @ sep @ py_join sep (y # xs)"

text \<open>Text-mode iteration over a file: the lines, each with its terminating newline.\<close>

fun file_lines :: "string \<Rightarrow> string \<Rightarrow> string list" where
  "file_lines cur [] = (if cur = [] then [] else [cur])"
| "file_lines cur (c # cs) =
     (if c = CHR 0x0A then (cur @ [c]) # file_lines [] cs else file_lines (cur @ [c]) cs)"

section \<open>Numeric conversions\<close>

subsection \<open>Rounding to a double\<close>

text \<open>\<open>n.bit_length()\<close> for a non-negative integer.\<close>

function bit_length :: "int \<Rightarrow> nat" where
  "bit_length n = (if n \<le> 0 then 0 else Suc (bit_length (n div 2)))"
  by pat_completeness auto
termination
  by (relation "measure nat") auto

declare bit_length.simps [simp del]

text \<open>The integer \<open>k\<close> with \<open>2\<^sup>k \<le> a < 2\<^sup>k\<^sup>+\<^sup>1\<close>, for a positive \<open>a\<close>.\<close>

definition floor_log2 :: "rat \<Rightarrow> int" where
  "floor_log2 a =
     (if 1 \<le> a then int (bit_length \<lfloor>a\<rfloor>) - 1 else - int (bit_length (\<lceil>1 / a\<rceil> - 1)))"

definition round_half_even :: "rat \<Rightarrow> int" where
  "round_half_even x =
     (let f = \<lfloor>x\<rfloor>; d = x - of_int f in
      if d < 1 / 2 then f else if 1 / 2 < d then f + 1 else if even f then f else f + 1)"

text \<open>
  The double nearest to a rational number, a tie going to the even significand.  The
  significand has 53 bits, fewer below \<open>2\<^sup>-\<^sup>1\<^sup>0\<^sup>2\<^sup>2\<close>, where the spacing stays
  \<open>2\<^sup>-\<^sup>1\<^sup>0\<^sup>7\<^sup>4\<close>; a result of \<open>2\<^sup>1\<^sup>0\<^sup>2\<^sup>4\<close> or more is an infinity.
\<close>

definition to_double :: "rat \<Rightarrow> pyfloat" where
  "to_double q =
     (if q = 0 then Fin 0
      else
        (let a = \<bar>q\<bar>;
             e = max (floor_log2 a - 52) (- 1074);
             m = round_half_even (a / 2 powi e);
             v = of_int m * 2 powi e
         in if 2 powi 1024 \<le> v then (if 0 < q then PosInf else NegInf)
            else Fin (if 0 < q then v else - v)))"

subsection \<open>\<open>int()\<close> and \<open>float()\<close> of a string\<close>

text \<open>
  Both conversions ignore blanks around the literal: the ASCII blanks, U+0085 and U+00A0,
  but not the separators U+001C to U+001F.
\<close>

definition num_isspace :: "char \<Rightarrow> bool" where
  "num_isspace c = (c \<in> set [CHR '' '', CHR 0x09, CHR 0x0A, CHR 0x0B, CHR 0x0C, CHR 0x0D,
                               CHR 0x85, CHR 0xA0])"

definition num_strip :: "string \<Rightarrow> string" where
  "num_strip s = rev (dropWhile num_isspace (rev (dropWhile num_isspace s)))"

text \<open>
  A digit part of a numeric literal: decimal digits, single underscores allowed between
  two digits.
\<close>

fun no_double_underscore :: "string \<Rightarrow> bool" where
  "no_double_underscore (a # b # cs) =
     (\<not> (a = CHR ''_'' \<and> b = CHR ''_'') \<and> no_double_underscore (b # cs))"
| "no_double_underscore cs = True"

definition is_digitpart :: "string \<Rightarrow> bool" where
  "is_digitpart s =
     (s \<noteq> [] \<and> list_all (\<lambda>c. is_digit c \<or> c = CHR ''_'') s
      \<and> is_digit (hd s) \<and> is_digit (last s) \<and> no_double_underscore s)"

definition digits_of :: "string \<Rightarrow> string" where
  "digits_of s = filter is_digit s"

definition digitpart_val :: "string \<Rightarrow> int" where
  "digitpart_val s = foldl (\<lambda>a c. 10 * a + int (digit_val c)) 0 (digits_of s)"

text \<open>An optional sign in front of a literal: the sign and the rest.\<close>

definition split_sign :: "string \<Rightarrow> bool \<times> string" where
  "split_sign s =
     (case s of
        c # cs \<Rightarrow> (if c = CHR ''-'' then (True, cs) else if c = CHR ''+'' then (False, cs)
                   else (False, s))
      | [] \<Rightarrow> (False, s))"

text \<open>\<open>int(s)\<close> in base 10; \<open>None\<close> is \<open>ValueError\<close>.\<close>

definition py_int :: "string \<Rightarrow> int option" where
  "py_int s =
     (let (neg, body) = split_sign (num_strip s) in
      if is_digitpart body
      then Some (if neg then - digitpart_val body else digitpart_val body)
      else None)"

text \<open>
  \<open>float(s)\<close>; \<open>None\<close> is \<open>ValueError\<close>.  The literal is a mantissa with an
  optional point and an optional exponent, or one of \<open>inf\<close>, \<open>infinity\<close>,
  \<open>nan\<close> in any letter case.  The result is the double nearest to the number written.
\<close>

definition is_exp_char :: "char \<Rightarrow> bool" where
  "is_exp_char c = (c = CHR ''e'' \<or> c = CHR ''E'')"

definition float_mantissa :: "string \<Rightarrow> rat option" where
  "float_mantissa m =
     (let ip = takeWhile (\<lambda>c. c \<noteq> CHR ''.'') m;
          fp = drop 1 (dropWhile (\<lambda>c. c \<noteq> CHR ''.'') m)
      in if (ip = [] \<or> is_digitpart ip) \<and> (fp = [] \<or> is_digitpart fp) \<and> \<not> (ip = [] \<and> fp = [])
         then Some (of_int (digitpart_val ip)
                    + of_int (digitpart_val fp) / 10 ^ length (digits_of fp))
         else None)"

definition float_exponent :: "string \<Rightarrow> int option" where
  "float_exponent e =
     (if e = [] then Some 0
      else (let (neg, body) = split_sign (drop 1 e) in
            if is_digitpart body
            then Some (if neg then - digitpart_val body else digitpart_val body)
            else None))"

definition py_float :: "string \<Rightarrow> pyfloat option" where
  "py_float s =
     (let (neg, body) = split_sign (num_strip s); word = py_lower body in
      if word = ''inf'' \<or> word = ''infinity'' then Some (if neg then NegInf else PosInf)
      else if word = ''nan'' then Some NaN
      else
        (case (float_mantissa (takeWhile (\<lambda>c. \<not> is_exp_char c) body),
               float_exponent (dropWhile (\<lambda>c. \<not> is_exp_char c) body)) of
           (Some m, Some e) \<Rightarrow>
             (let v = (if 0 \<le> e then m * 10 ^ nat e else m / 10 ^ nat (- e))
              in Some (to_double (if neg then - v else v)))
         | _ \<Rightarrow> None))"

subsection \<open>Arithmetic on floats\<close>

text \<open>
  \<open>round(x, n)\<close> on a float: the multiple of \<open>10\<^sup>-\<^sup>n\<close> nearest to the value of
  \<open>x\<close>, a tie going to the even one, and of that the nearest double; the special
  values are returned unchanged.
\<close>

definition round_rat :: "rat \<Rightarrow> nat \<Rightarrow> rat" where
  "round_rat x n = of_int (round_half_even (x * 10 ^ n)) / 10 ^ n"

fun py_round :: "pyfloat \<Rightarrow> nat \<Rightarrow> pyfloat" where
  "py_round (Fin x) n = to_double (round_rat x n)"
| "py_round PosInf n = PosInf"
| "py_round NegInf n = NegInf"
| "py_round NaN n = NaN"

text \<open>\<open>x / c\<close> for a float \<open>x\<close> and a positive integer constant \<open>c\<close>.\<close>

fun fdiv :: "pyfloat \<Rightarrow> rat \<Rightarrow> pyfloat" where
  "fdiv (Fin x) c = to_double (x / c)"
| "fdiv PosInf c = PosInf"
| "fdiv NegInf c = NegInf"
| "fdiv NaN c = NaN"

text \<open>
  \<open>a / b\<close> for two integers: the double nearest to the quotient, and
  \<open>OverflowError\<close> when that is too large for a double.
\<close>

definition int_true_div :: "int \<Rightarrow> int \<Rightarrow> pyerr + pyfloat" where
  "int_true_div a b =
     (if b = 0 then Inl ZeroDivisionError
      else (case to_double (of_int a / of_int b) of
              PosInf \<Rightarrow> Inl OverflowError
            | NegInf \<Rightarrow> Inl OverflowError
            | NaN \<Rightarrow> Inr NaN
            | Fin x \<Rightarrow> Inr (Fin x)))"

section \<open>Process collection without psutil: Windows \<open>tasklist\<close>\<close>

text \<open>What the collectors print.\<close>

datatype message =
    Error_getting_processes pyerr
  | Error_running_tasklist
  | Error_parsing_tasklist pyerr
  | Error_running_ps
  | Error_parsing_ps pyerr
  | Error_getting_system_information pyerr

text \<open>
  One iteration of the loop of \<open>_get_processes_windows\<close> over the output rows:
  \<open>Inr None\<close> when the row has fewer than five fields and nothing is appended,
  \<open>Inr (Some r)\<close> when \<open>r\<close> is appended, \<open>Inl e\<close> when the iteration raises.
  The memory field is converted inside its own \<open>try\<close>; \<open>int(parts[1])\<close> is not.
\<close>

definition windows_parts :: "string \<Rightarrow> string list" where
  \<open>windows_parts line = map (py_strip_chars ''"'') (py_split line ''","'')\<close>

definition windows_memory_mb :: "string list \<Rightarrow> pyfloat" where
  "windows_memory_mb parts =
     (let memory_str = py_replace (py_replace (parts ! 4) '','' []) '' K'' [] in
      case py_float memory_str of
        Some memory_kb \<Rightarrow> py_round (fdiv memory_kb 1024) 1
      | None \<Rightarrow> Fin 0)"

definition windows_record :: "string list \<Rightarrow> pyfloat \<Rightarrow> int \<Rightarrow> pydict" where
  "windows_record parts memory_mb pid =
     [(''pid'', PInt pid),
      (''name'', PStr (parts ! 0)),
      (''cpu_percent'', PFloat (Fin 0)),
      (''memory_percent'', PFloat (Fin 0)),
      (''memory_mb'', PFloat memory_mb),
      (''status'', PStr (if length parts > 3 then parts ! 3 else ''unknown'')),
      (''username'', PStr ''unknown'')]"

definition windows_row :: "string \<Rightarrow> pyerr + pydict option" where
  "windows_row line =
     (let parts = windows_parts line in
      if length parts \<ge> 5 then
        (let memory_mb = windows_memory_mb parts in
         case py_int (parts ! 1) of
           None \<Rightarrow> Inl ValueError
         | Some pid \<Rightarrow> Inr (Some (windows_record parts memory_mb pid)))
      else Inr None)"

text \<open>
  The loop: the records appended so far, and the exception that ended the loop early,
  if one did.
\<close>

fun windows_loop :: "string list \<Rightarrow> pydict list \<Rightarrow> pyerr option \<times> pydict list" where
  "windows_loop [] processes = (None, processes)"
| "windows_loop (line # lines) processes =
     (case windows_row line of
        Inl e \<Rightarrow> (Some e, processes)
      | Inr None \<Rightarrow> windows_loop lines processes
      | Inr (Some r) \<Rightarrow> windows_loop lines (processes @ [r]))"

text \<open>
  \<open>_get_processes_windows\<close>.  The argument is the outcome of running
  \<open>tasklist /fo csv\<close>: its standard output, or the exception \<open>subprocess.run\<close> raised.
  The result is what was printed and the list returned.
\<close>

definition windows_lines :: "string \<Rightarrow> string list" where
  "windows_lines stdout = tl (py_split (py_strip stdout) ''\<newline>'')"

definition get_processes_windows :: "pyerr + string \<Rightarrow> message list \<times> pydict list" where
  "get_processes_windows tasklist =
     (case tasklist of
        Inl e \<Rightarrow> (if e = CalledProcessError then ([Error_running_tasklist], [])
                  else ([Error_parsing_tasklist e], []))
      | Inr stdout \<Rightarrow>
          (case windows_loop (windows_lines stdout) [] of
             (None, processes) \<Rightarrow> ([], processes)
           | (Some e, processes) \<Rightarrow> ([Error_parsing_tasklist e], processes)))"

subsection \<open>Sample \<open>tasklist\<close> output\<close>

definition tasklist_header :: string where
  \<open>tasklist_header = ''"Image Name","PID","Session Name","Session#","Mem Usage"''\<close>

definition notepad_row :: string where
  \<open>notepad_row = ''"notepad.exe","1234","Console","1","10,240 K"''\<close>

definition idle_row :: string where
  \<open>idle_row = ''"System Idle Process","0","Services","0","N/A"''\<close>

definition badpid_row :: string where
  \<open>badpid_row = ''"svchost.exe","N/A","Services","0","5,120 K"''\<close>

definition tasklist_stdout :: "string list \<Rightarrow> string" where
  "tasklist_stdout rows = concat (map (\<lambda>r. r @ ''\<newline>'') (tasklist_header # rows))"

definition short_row :: string where
  \<open>short_row = ''"cmd.exe","77","Console"''\<close>

section \<open>Process collection without psutil: the \<open>/proc\<close> filesystem\<close>

text \<open>
  What the collector sees of \<open>/proc\<close>: the directory listing (\<open>None\<close> when
  \<open>os.listdir\<close> raises \<open>OSError\<close>) and, for a pid, its \<open>stat\<close> and
  \<open>status\<close> files.  A file is missing (\<open>os.path.exists\<close> is false),
  unreadable (opening or reading it raises \<open>OSError\<close>, as when the process has just
  exited), or has a content.
\<close>

datatype file_read = Missing | Unreadable | Content string

record procfs =
  listdir_proc :: "string list option"
  stat_file :: "int \<Rightarrow> file_read"
  status_file :: "int \<Rightarrow> file_read"

text \<open>
  The scan of the \<open>status\<close> file: the first line that starts with \<open>VmRSS:\<close>
  decides; \<open>int(line.split()[1])\<close> raises \<open>IndexError\<close> or \<open>ValueError\<close>
  on a line without a number.  Without such a line \<open>memory_kb\<close> stays 0.
\<close>

fun scan_vmrss :: "string list \<Rightarrow> pyerr + int" where
  "scan_vmrss [] = Inr 0"
| "scan_vmrss (line # lines) =
     (if py_startswith line ''VmRSS:''
      then (let fields = py_split_ws line in
            if length fields \<le> 1 then Inl IndexError
            else (case py_int (fields ! 1) of None \<Rightarrow> Inl ValueError | Some kb \<Rightarrow> Inr kb))
      else scan_vmrss lines)"

text \<open>
  The body of the loop over the directory entries, for one entry.  Every exception it can
  raise is one of \<open>OSError\<close>, \<open>ValueError\<close>, \<open>IndexError\<close>, which the loop
  answers with \<open>continue\<close>: the result is the record appended, or \<open>None\<close>.
\<close>

definition proc_entry :: "procfs \<Rightarrow> string \<Rightarrow> pydict option" where
  "proc_entry fs pid_dir =
     (if \<not> py_isdigit pid_dir then None
      else
        (case py_int pid_dir of
           None \<Rightarrow> None
         | Some pid \<Rightarrow>
             (case stat_file fs pid of
                Missing \<Rightarrow> None
              | Unreadable \<Rightarrow> None
              | Content stat \<Rightarrow>
                  (let stat_data = py_split_ws stat in
                   if length stat_data \<le> 2 then None
                   else
                     (let name = py_strip_chars ''()'' (stat_data ! 1);
                          status = stat_data ! 2;
                          memory_kb =
                            (case status_file fs pid of
                               Missing \<Rightarrow> Inr 0
                             | Unreadable \<Rightarrow> Inl OSError
                             | Content text \<Rightarrow> scan_vmrss (file_lines [] text))
                      in case memory_kb of
                           Inl e \<Rightarrow> None
                         | Inr kb \<Rightarrow>
                             Some [(''pid'', PInt pid),
                                   (''name'', PStr name),
                                   (''cpu_percent'', PFloat (Fin 0)),
                                   (''memory_percent'', PFloat (Fin 0)),
                                   (''memory_kb'', PInt kb),
                                   (''status'', PStr status),
                                   (''username'', PStr ''unknown'')])))))"

definition get_processes_proc :: "procfs \<Rightarrow> pydict list" where
  "get_processes_proc fs =
     (case listdir_proc fs of
        None \<Rightarrow> []
      | Some entries \<Rightarrow> List.map_filter (proc_entry fs) entries)"

section \<open>Process collection without psutil: the \<open>ps\<close> command\<close>

text \<open>
  One output row of \<open>ps axo pid,comm,pcpu,pmem,stat,user\<close>: the record appended, or
  \<open>None\<close> when the row has fewer than five columns or a conversion raises
  \<open>ValueError\<close>.
\<close>

definition ps_row :: "string \<Rightarrow> pydict option" where
  "ps_row line =
     (let parts = py_split_ws_max line 5 in
      if length parts \<ge> 5 then
        (case py_int (parts ! 0) of
           None \<Rightarrow> None
         | Some pid \<Rightarrow>
             (case py_float (parts ! 2) of
                None \<Rightarrow> None
              | Some cpu \<Rightarrow>
                  (case py_float (parts ! 3) of
                     None \<Rightarrow> None
                   | Some mem \<Rightarrow>
                       Some [(''pid'', PInt pid),
                             (''name'', PStr (parts ! 1)),
                             (''cpu_percent'', PFloat cpu),
                             (''memory_percent'', PFloat mem),
                             (''status'', PStr (parts ! 4)),
                             (''username'',
                                PStr (if length parts > 5 then parts ! 5 else ''unknown''))])))
      else None)"

definition ps_lines :: "string \<Rightarrow> string list" where
  "ps_lines stdout = tl (py_split (py_strip stdout) ''\<newline>'')"

text \<open>
  \<open>_get_processes_ps\<close>, from the outcome of running the command.  The list is
  returned in the order of the rows.
\<close>

definition get_processes_ps :: "pyerr + string \<Rightarrow> message list \<times> pydict list" where
  "get_processes_ps ps =
     (case ps of
        Inl e \<Rightarrow> (if e = CalledProcessError then ([Error_running_ps], [])
                  else ([Error_parsing_ps e], []))
      | Inr stdout \<Rightarrow> ([], List.map_filter ps_row (ps_lines stdout)))"

section \<open>Process collection with psutil\<close>

text \<open>
  What \<open>psutil.process_iter\<close> hands over for one process: the \<open>info\<close>
  dictionary, in which an attribute that could not be read is \<open>None\<close>, and the outcome
  of calling \<open>proc.cpu_percent()\<close> on it.  \<open>memory_info\<close> is the pair of
  \<open>rss\<close> and \<open>vms\<close>.  The floats psutil reports are finite doubles, given by
  their values.
\<close>

record psproc =
  info_pid :: int
  info_name :: "string option"
  info_cpu_percent :: "rat option"
  info_memory_percent :: "rat option"
  info_status :: "string option"
  info_username :: "string option"
  info_num_threads :: "int option"
  info_memory_info :: "(int \<times> int) option"
  info_create_time :: "rat option"
  info_nice :: "int option"
  info_cmdline :: "string list option"
  cpu_percent_call :: "pyerr + rat"

text \<open>\<open>x or default\<close> for an optional string: \<open>None\<close> and \<open>''\<close> are false.\<close>

definition str_or :: "string option \<Rightarrow> string \<Rightarrow> string" where
  "str_or x d = (case x of None \<Rightarrow> d | Some s \<Rightarrow> if s = [] then d else s)"

definition opt_int :: "int option \<Rightarrow> pyval" where
  "opt_int x = (case x of None \<Rightarrow> PNone | Some i \<Rightarrow> PInt i)"

definition opt_float :: "rat option \<Rightarrow> pyval" where
  "opt_float x = (case x of None \<Rightarrow> PNone | Some r \<Rightarrow> PFloat (Fin r))"

text \<open>
  The body of the loop for one process.  \<open>proc.cpu_percent()\<close> is called when the
  reading in \<open>info\<close> is \<open>None\<close> or 0.0 and may raise; joining a \<open>cmdline\<close>
  that is \<open>None\<close> raises \<open>TypeError\<close>.
\<close>

definition psutil_row :: "psproc \<Rightarrow> pyerr + pydict" where
  "psutil_row proc =
     (case (case info_cpu_percent proc of
              None \<Rightarrow> cpu_percent_call proc
            | Some c \<Rightarrow> if c = 0 then cpu_percent_call proc else Inr c) of
        Inl e \<Rightarrow> Inl e
      | Inr cpu_percent \<Rightarrow>
          (let rss = (case info_memory_info proc of None \<Rightarrow> 0 | Some (r, v) \<Rightarrow> r);
               vms = (case info_memory_info proc of None \<Rightarrow> 0 | Some (r, v) \<Rightarrow> v)
           in case info_cmdline proc of
                None \<Rightarrow> Inl TypeError
              | Some cmdline \<Rightarrow>
                  Inr [(''pid'', PInt (info_pid proc)),
                       (''name'', PStr (str_or (info_name proc) ''Unknown'')),
                       (''cpu_percent'',
                          PFloat (if cpu_percent \<noteq> 0 then py_round (Fin cpu_percent) 1
                                  else Fin 0)),
                       (''memory_percent'',
                          PFloat (py_round
                            (Fin (case info_memory_percent proc of
                                    None \<Rightarrow> 0 | Some m \<Rightarrow> if m = 0 then 0 else m)) 1)),
                       (''status'', PStr (str_or (info_status proc) ''unknown'')),
                       (''username'', PStr (str_or (info_username proc) ''unknown'')),
                       (''num_threads'', opt_int (info_num_threads proc)),
                       (''rss'', PInt rss),
                       (''vms'', PInt vms),
                       (''nice'', opt_int (info_nice proc)),
                       (''create_time'', opt_float (info_create_time proc)),
                       (''cmdline'', PStr (py_join '' '' cmdline))]))"

text \<open>
  The loop: a process whose iteration raises \<open>NoSuchProcess\<close>, \<open>AccessDenied\<close>
  or \<open>ZombieProcess\<close> is skipped; any other exception leaves the loop.
\<close>

fun psutil_loop :: "psproc list \<Rightarrow> pydict list \<Rightarrow> pyerr option \<times> pydict list" where
  "psutil_loop [] processes = (None, processes)"
| "psutil_loop (proc # procs) processes =
     (case psutil_row proc of
        Inr process_info \<Rightarrow> psutil_loop procs (processes @ [process_info])
      | Inl e \<Rightarrow>
          (if e = NoSuchProcess \<or> e = AccessDenied \<or> e = ZombieProcess
           then psutil_loop procs processes
           else (Some e, processes)))"

text \<open>
  \<open>sorted(xs, key=k, reverse=True)\<close>: the list is reversed, sorted stably by
  ascending key, and reversed again.
\<close>

definition py_sorted_reverse :: "('a \<Rightarrow> 'k::linorder) \<Rightarrow> 'a list \<Rightarrow> 'a list" where
  "py_sorted_reverse k xs = rev (sort_key k (rev xs))"

text \<open>
  The order of floats that the sort compares by: the finite ones by their values, between
  the two infinities.  \<open>psutil_row\<close> never stores a NaN (lemma
  \<open>psutil_row_cpu_percent\<close> below), which has no place in that order.
\<close>

fun float_key :: "pyfloat \<Rightarrow> int \<times> rat" where
  "float_key (Fin x) = (0, x)"
| "float_key PosInf = (1, 0)"
| "float_key NegInf = (- 1, 0)"
| "float_key NaN = (0, 0)"

text \<open>
  The sort key \<open>x['cpu_percent']\<close>.  Every record \<open>psutil_row\<close> builds holds
  a float there; the other case is not reached when sorting them.
\<close>

definition cpu_percent_key :: "pydict \<Rightarrow> int \<times> rat" where
  "cpu_percent_key x =
     (case map_of x ''cpu_percent'' of Some (PFloat c) \<Rightarrow> float_key c | _ \<Rightarrow> (0, 0))"

text \<open>
  \<open>_get_processes_psutil\<close>.  The argument is what the iterator yields and the
  exception it raises after that, if it does.
\<close>

definition get_processes_psutil ::
    "psproc list \<times> pyerr option \<Rightarrow> message list \<times> pydict list" where
  "get_processes_psutil it =
     (case psutil_loop (fst it) [] of
        (Some e, processes) \<Rightarrow>
          ([Error_getting_processes e], py_sorted_reverse cpu_percent_key processes)
      | (None, processes) \<Rightarrow>
          (case snd it of
             Some e \<Rightarrow> ([Error_getting_processes e], py_sorted_reverse cpu_percent_key processes)
           | None \<Rightarrow> ([], py_sorted_reverse cpu_percent_key processes)))"

section \<open>Choosing the collector\<close>

text \<open>
  The machine as \<open>SystemMonitor\<close> sees it: whether psutil could be imported,
  \<open>platform.system().lower()\<close>, and what each source of process data would answer.
\<close>

record host =
  psutil_available :: bool
  system :: string
  process_iter :: "psproc list \<times> pyerr option"
  tasklist :: "pyerr + string"
  proc_exists :: bool
  proc_fs :: procfs
  ps_command :: "pyerr + string"

definition get_processes_unix :: "host \<Rightarrow> message list \<times> pydict list" where
  "get_processes_unix h =
     (if system h = ''linux'' \<and> proc_exists h then ([], get_processes_proc (proc_fs h))
      else get_processes_ps (ps_command h))"

definition get_processes_fallback :: "host \<Rightarrow> message list \<times> pydict list" where
  "get_processes_fallback h =
     (if system h = ''windows'' then get_processes_windows (tasklist h)
      else get_processes_unix h)"

definition get_process_status :: "host \<Rightarrow> message list \<times> pydict list" where
  "get_process_status h =
     (if psutil_available h then get_processes_psutil (process_iter h)
      else get_processes_fallback h)"


subsection \<open>Sample \<open>ps\<close> output and a sample \<open>/proc\<close>\<close>

definition ps_header :: string where
  "ps_header = ''  PID COMM  %CPU %MEM STAT USER''"

definition ps_row_init :: string where
  "ps_row_init = ''    1 init   1.5  0.1 Ss   root''"

definition ps_row_python :: string where
  "ps_row_python = ''   42 python3 40.0  2.5 R+   alice''"

definition ps_stdout :: string where
  "ps_stdout = concat (map (\<lambda>r. r @ ''\<newline>'') [ps_header, ps_row_init, ps_row_python])"

definition sample_stat :: string where
  "sample_stat = ''123 (myproc) S 1 123 123 0 -1 4194560 151 0 0 0''"

definition sample_status :: string where
  "sample_status =
     concat (map (\<lambda>r. r @ ''\<newline>'')
       [''Name:   myproc'', ''VmPeak:     4096 kB'', ''VmRSS:    2048 kB'', ''Threads:        1''])"

definition sample_procfs :: procfs where
  "sample_procfs =
     \<lparr> listdir_proc = Some [''123'', ''self'', ''77''],
       stat_file = (\<lambda>pid. if pid = 123 then Content sample_stat else Unreadable),
       status_file = (\<lambda>pid. if pid = 123 then Content sample_status else Missing) \<rparr>"

definition sample_psproc :: "int \<Rightarrow> rat \<Rightarrow> psproc" where
  "sample_psproc pid cpu =
     \<lparr> info_pid = pid, info_name = None, info_cpu_percent = Some cpu,
       info_memory_percent = None, info_status = Some ''running'', info_username = None,
       info_num_threads = Some 1, info_memory_info = None, info_create_time = None,
       info_nice = None, info_cmdline = Some [''sh'', ''-c''],
       cpu_percent_call = Inl AccessDenied \<rparr>"

definition mac_host :: host where
  "mac_host =
     \<lparr> psutil_available = False, system = ''darwin'', process_iter = ([], None),
       tasklist = Inl OSError, proc_exists = False,
       proc_fs = \<lparr> listdir_proc = None, stat_file = (\<lambda>pid. Missing),
                   status_file = (\<lambda>pid. Missing) \<rparr>,
       ps_command = Inr ps_stdout \<rparr>"

definition psutil_host :: host where
  "psutil_host =
     \<lparr> psutil_available = True, system = ''linux'',
       process_iter = ([sample_psproc 1 (3 / 2), sample_psproc 2 40, sample_psproc 3 (3 / 2)], None),
       tasklist = Inl OSError, proc_exists = True, proc_fs = sample_procfs,
       ps_command = Inr ps_stdout \<rparr>"

definition sample_psutil_record :: "int \<Rightarrow> rat \<Rightarrow> pydict" where
  "sample_psutil_record pid cpu =
     [(''pid'', PInt pid), (''name'', PStr ''Unknown''), (''cpu_percent'', PFloat (Fin cpu)),
      (''memory_percent'', PFloat (Fin 0)), (''status'', PStr ''running''),
      (''username'', PStr ''unknown''), (''num_threads'', PInt 1), (''rss'', PInt 0),
      (''vms'', PInt 0), (''nice'', PNone), (''create_time'', PNone),
      (''cmdline'', PStr ''sh -c'')]"


section \<open>The paged process view\<close>

text \<open>
  \<open>display_process_status\<close> keeps the list it collected, the page size and
  \<open>current_page\<close>.  Each turn of its loop renders one page and then reads one line
  of input.  What a turn computes for the screen is a \<open>page_view\<close>.  Of the text of
  a row only this is modelled: whether formatting it raises, and what.
\<close>

record page_view =
  page_number :: int
  page_count :: int
  current_processes :: "pydict list"
  total_count :: int
  showing_from :: int
  showing_to :: int
  cpu_intensive :: int
  memory_intensive :: int

datatype screen = No_process_information | Page page_view | Crash pyerr

text \<open>\<open>xs[i:j]\<close>.\<close>

definition py_slice :: "'a list \<Rightarrow> int \<Rightarrow> int \<Rightarrow> 'a list" where
  "py_slice xs i j =
     (let n = int (length xs);
          a = (if i < 0 then max (i + n) 0 else min i n);
          b = (if j < 0 then max (j + n) 0 else min j n)
      in drop (nat a) (take (nat b) xs))"

text \<open>\<open>v > 10.0\<close> for a value of a record.\<close>

fun gt_10 :: "pyval \<Rightarrow> pyerr + bool" where
  "gt_10 (PInt i) = Inr (10 < i)"
| "gt_10 (PFloat (Fin x)) = Inr (10 < x)"
| "gt_10 (PFloat PosInf) = Inr True"
| "gt_10 (PFloat NegInf) = Inr False"
| "gt_10 (PFloat NaN) = Inr False"
| "gt_10 (PBool b) = Inr False"
| "gt_10 (PStr s) = Inl TypeError"
| "gt_10 PNone = Inl TypeError"
| "gt_10 (PList l) = Inl TypeError"
| "gt_10 (PDict d) = Inl TypeError"

text \<open>\<open>p['cpu_percent'] > 10.0\<close> and \<open>p.get('memory_percent', 0) > 10.0\<close>.\<close>

definition is_cpu_intensive :: "pydict \<Rightarrow> pyerr + bool" where
  "is_cpu_intensive p =
     (case map_of p ''cpu_percent'' of None \<Rightarrow> Inl KeyError | Some v \<Rightarrow> gt_10 v)"

definition is_memory_intensive :: "pydict \<Rightarrow> pyerr + bool" where
  "is_memory_intensive p =
     (case map_of p ''memory_percent'' of None \<Rightarrow> gt_10 (PInt 0) | Some v \<Rightarrow> gt_10 v)"

text \<open>\<open>sum(1 for p in ps if test(p))\<close>, where the test may raise.\<close>

fun count_if :: "('a \<Rightarrow> pyerr + bool) \<Rightarrow> 'a list \<Rightarrow> pyerr + int" where
  "count_if test [] = Inr 0"
| "count_if test (p # ps) =
     (case test p of
        Inl e \<Rightarrow> Inl e
      | Inr b \<Rightarrow>
          (case count_if test ps of
             Inl e \<Rightarrow> Inl e
           | Inr n \<Rightarrow> Inr ((if b then 1 else 0) + n)))"

text \<open>
  Formatting a value with an alignment and width (\<open>:<8\<close>), with a fixed-point
  format (\<open>:<8.1f\<close>), and cutting a text before aligning it
  (\<open>v[:24]:<25\<close>): the exception raised, if any.  The fixed-point format converts
  an integer to a float first, which raises \<open>OverflowError\<close> when it is too large.
  Cutting a dictionary raises \<open>TypeError\<close> up to Python 3.11.
\<close>

fun format_aligned :: "pyval \<Rightarrow> pyerr option" where
  "format_aligned (PInt i) = None"
| "format_aligned (PFloat x) = None"
| "format_aligned (PStr s) = None"
| "format_aligned (PBool b) = None"
| "format_aligned PNone = Some TypeError"
| "format_aligned (PList l) = Some TypeError"
| "format_aligned (PDict d) = Some TypeError"

fun format_fixed :: "pyval \<Rightarrow> pyerr option" where
  "format_fixed (PInt i) =
     (case to_double (of_int i) of Fin x \<Rightarrow> None | _ \<Rightarrow> Some OverflowError)"
| "format_fixed (PFloat x) = None"
| "format_fixed (PBool b) = None"
| "format_fixed (PStr s) = Some ValueError"
| "format_fixed PNone = Some TypeError"
| "format_fixed (PList l) = Some TypeError"
| "format_fixed (PDict d) = Some TypeError"

fun format_cut :: "pyval \<Rightarrow> pyerr option" where
  "format_cut (PStr s) = None"
| "format_cut (PInt i) = Some TypeError"
| "format_cut (PFloat x) = Some TypeError"
| "format_cut (PBool b) = Some TypeError"
| "format_cut PNone = Some TypeError"
| "format_cut (PList l) = Some TypeError"
| "format_cut (PDict d) = Some TypeError"

text \<open>\<open>p[k]\<close> and \<open>p.get(k, d)\<close>, formatted: the exception raised, if any.\<close>

definition item_error :: "pydict \<Rightarrow> string \<Rightarrow> (pyval \<Rightarrow> pyerr option) \<Rightarrow> pyerr option" where
  "item_error p k fmt = (case map_of p k of None \<Rightarrow> Some KeyError | Some v \<Rightarrow> fmt v)"

definition get_error ::
    "pydict \<Rightarrow> string \<Rightarrow> pyval \<Rightarrow> (pyval \<Rightarrow> pyerr option) \<Rightarrow> pyerr option" where
  "get_error p k d fmt = (case map_of p k of None \<Rightarrow> fmt d | Some v \<Rightarrow> fmt v)"

fun first_error :: "pyerr option list \<Rightarrow> pyerr option" where
  "first_error [] = None"
| "first_error (None # es) = first_error es"
| "first_error (Some e # es) = Some e"

text \<open>
  The line printed for one process: its fields are formatted from left to right, and the
  first exception ends the rendering.
\<close>

definition row_error :: "pydict \<Rightarrow> pyerr option" where
  "row_error proc =
     first_error
       [item_error proc ''pid'' format_aligned,
        item_error proc ''name'' format_cut,
        item_error proc ''cpu_percent'' format_fixed,
        get_error proc ''memory_percent'' (PFloat (Fin 0)) format_fixed,
        item_error proc ''status'' format_cut,
        item_error proc ''username'' format_cut,
        get_error proc ''num_threads'' (PStr []) format_aligned]"

text \<open>
  One rendering: the header (a zero page size raises in its division), the rows of the
  page, the footer with the two counts.
\<close>

definition render :: "pydict list \<Rightarrow> int \<Rightarrow> int \<Rightarrow> pyerr + page_view" where
  "render processes page_size current_page =
     (let total_processes = int (length processes);
          start_idx = current_page * page_size;
          end_idx = start_idx + page_size;
          current = py_slice processes start_idx end_idx
      in if page_size = 0 then Inl ZeroDivisionError
         else
           (case first_error (map row_error current) of
              Some e \<Rightarrow> Inl e
            | None \<Rightarrow>
                (case count_if is_cpu_intensive processes of
                   Inl e \<Rightarrow> Inl e
                 | Inr cpu \<Rightarrow>
                     (case count_if is_memory_intensive processes of
                        Inl e \<Rightarrow> Inl e
                      | Inr mem \<Rightarrow>
                          Inr \<lparr> page_number = current_page + 1,
                                page_count = (total_processes + page_size - 1) div page_size,
                                current_processes = current,
                                total_count = total_processes,
                                showing_from = start_idx + 1,
                                showing_to = min end_idx total_processes,
                                cpu_intensive = cpu,
                                memory_intensive = mem \<rparr>))))"

text \<open>
  The navigation at the end of a turn: the next \<open>current_page\<close>, or \<open>None\<close>
  when the loop is left.  Any other input leaves the page as it is.
\<close>

definition navigate :: "int \<Rightarrow> int \<Rightarrow> int \<Rightarrow> string \<Rightarrow> int option" where
  "navigate total_processes page_size current_page line =
     (let choice = py_lower line;
          end_idx = current_page * page_size + page_size
      in if choice = ''n'' \<and> end_idx < total_processes then Some (current_page + 1)
         else if choice = ''p'' \<and> current_page > 0 then Some (current_page - 1)
         else if choice = ''f'' then Some 0
         else if choice = ''l'' then Some ((total_processes - 1) div page_size)
         else if choice = ''q'' then None
         else Some current_page)"

text \<open>
  The values \<open>current_page\<close> takes, turn by turn, for the lines typed; the trace
  ends with \<open>q\<close> or with the last line typed.
\<close>

fun pager_loop :: "int \<Rightarrow> int \<Rightarrow> int \<Rightarrow> string list \<Rightarrow> int list" where
  "pager_loop total_processes page_size current_page [] = [current_page]"
| "pager_loop total_processes page_size current_page (line # lines) =
     current_page #
       (case navigate total_processes page_size current_page line of
          None \<Rightarrow> []
        | Some next_page \<Rightarrow> pager_loop total_processes page_size next_page lines)"

text \<open>The screens of those turns; an exception while rendering ends the session.\<close>

fun render_pages :: "pydict list \<Rightarrow> int \<Rightarrow> int list \<Rightarrow> screen list" where
  "render_pages processes page_size [] = []"
| "render_pages processes page_size (p # pages) =
     (case render processes page_size p of
        Inl e \<Rightarrow> [Crash e]
      | Inr v \<Rightarrow> Page v # render_pages processes page_size pages)"

definition display_process_status :: "pydict list \<Rightarrow> int \<Rightarrow> string list \<Rightarrow> screen list" where
  "display_process_status processes page_size lines =
     (if processes = [] then [No_process_information]
      else render_pages processes page_size
             (pager_loop (int (length processes)) page_size 0 lines))"


section \<open>The system snapshot\<close>

text \<open>What the \<open>platform\<close>, \<open>os\<close> and \<open>time\<close> modules answer.\<close>

record platform_info =
  platform_system :: string
  platform_platform :: string
  architecture :: string
  os_cpu_count :: "int option"
  local_time_string :: "rat \<Rightarrow> string"

subsection \<open>With psutil\<close>

text \<open>
  The named tuples of \<open>psutil.virtual_memory()\<close> and \<open>psutil.swap_memory()\<close>, and
  the outcome of every psutil call \<open>_get_system_info_psutil\<close> makes.  The iteration
  over the processes yields their statuses and may end with an exception.
\<close>

record svmem =
  vm_total :: int
  vm_available :: int
  vm_percent :: rat
  vm_used :: int
  vm_free :: int

record sswap =
  sw_total :: int
  sw_used :: int
  sw_free :: int
  sw_percent :: rat
  sw_sin :: int
  sw_sout :: int

record psutil_sys =
  cpu_count :: "pyerr + int option"
  cpu_count_logical :: "pyerr + int option"
  cpu_percent_sample :: "pyerr + rat"
  virtual_memory :: "pyerr + svmem"
  swap_memory :: "pyerr + sswap"
  pids :: "pyerr + int list"
  status_iter :: "string list \<times> pyerr option"
  boot_time :: "pyerr + rat"

text \<open>\<open>status_counts[s] += 1\<close> on a \<open>defaultdict(int)\<close>.\<close>

fun bump :: "(string \<times> int) list \<Rightarrow> string \<Rightarrow> (string \<times> int) list" where
  "bump [] s = [(s, 1)]"
| "bump ((k, n) # d) s = (if k = s then (k, n + 1) # d else (k, n) # bump d s)"

fun count_statuses :: "string list \<Rightarrow> (string \<times> int) list \<Rightarrow> (string \<times> int) list" where
  "count_statuses [] d = d"
| "count_statuses (s # statuses) d = count_statuses statuses (bump d s)"

text \<open>
  \<open>round(n / 1024 ** k, 2)\<close> for an integer \<open>n\<close>; the division raises when
  the quotient is too large for a float.
\<close>

definition scaled :: "int \<Rightarrow> nat \<Rightarrow> pyerr + pyval" where
  "scaled n k = bind_err (int_true_div n (1024 ^ k)) (\<lambda>x. Inr (PFloat (py_round x 2)))"

definition get_system_info_psutil ::
    "platform_info \<Rightarrow> psutil_sys \<Rightarrow> message list \<times> pydict" where
  "get_system_info_psutil pl s =
     (case
        bind_err (cpu_count s) (\<lambda>cpu_count.
        bind_err (cpu_count_logical s) (\<lambda>cpu_count_logical.
        bind_err (cpu_percent_sample s) (\<lambda>cpu_percent.
        bind_err (virtual_memory s) (\<lambda>memory.
        bind_err (swap_memory s) (\<lambda>swap.
        bind_err (pids s) (\<lambda>pid_list.
        bind_err (case snd (status_iter s) of
                    Some e \<Rightarrow> Inl e
                  | None \<Rightarrow> Inr (count_statuses (fst (status_iter s)) [])) (\<lambda>status_counts.
        bind_err (boot_time s) (\<lambda>boot.
        bind_err (scaled (vm_total memory) 3) (\<lambda>memory_total_gb.
        bind_err (scaled (vm_used memory) 3) (\<lambda>memory_used_gb.
        bind_err (scaled (sw_total swap) 3) (\<lambda>swap_total_gb.
        bind_err (scaled (sw_used swap) 3) (\<lambda>swap_used_gb.
          Inr [(''cpu_cores_physical'', opt_int cpu_count),
               (''cpu_cores_logical'', opt_int cpu_count_logical),
               (''cpu_percent'', PFloat (Fin cpu_percent)),
               (''memory_total_gb'', memory_total_gb),
               (''memory_used_gb'', memory_used_gb),
               (''memory_percent'', PFloat (Fin (vm_percent memory))),
               (''swap_total_gb'', swap_total_gb),
               (''swap_used_gb'', swap_used_gb),
               (''swap_percent'', PFloat (Fin (sw_percent swap))),
               (''process_count'', PInt (int (length pid_list))),
               (''process_status_counts'', PDict (map (\<lambda>(k, n). (k, PInt n)) status_counts)),
               (''boot_time'', PStr (local_time_string pl boot)),
               (''system'', PStr (platform_system pl)),
               (''platform'', PStr (platform_platform pl)),
               (''architecture'', PStr (architecture pl))])))))))))))) of
        Inl e \<Rightarrow> ([Error_getting_system_information e], [])
      | Inr info \<Rightarrow> ([], info))"

subsection \<open>Without psutil\<close>

text \<open>
  The sources of the fallback: the two files of \<open>/proc\<close> (\<open>None\<close> when
  \<open>open\<close> raises \<open>OSError\<close>) and the outcome of the two commands, a return
  code (with the standard output for \<open>wmic\<close>) or the exception \<open>subprocess.run\<close>
  raised.
\<close>

record fallback_sources =
  meminfo :: "string option"
  loadavg :: "string option"
  vm_stat :: "pyerr + int"
  wmic :: "pyerr + int \<times> string"

text \<open>\<open>int(line.split()[1])\<close>.\<close>

definition second_field_int :: "string \<Rightarrow> pyerr + int" where
  "second_field_int line =
     (let fields = py_split_ws line in
      if length fields \<le> 1 then Inl IndexError
      else (case py_int (fields ! 1) of None \<Rightarrow> Inl ValueError | Some n \<Rightarrow> Inr n))"

text \<open>
  The loop over the lines of \<open>/proc/meminfo\<close>.  Only \<open>OSError\<close> is caught around
  it, so a line that does not convert ends the whole query with its exception.
\<close>

fun meminfo_loop :: "string list \<Rightarrow> pydict \<Rightarrow> pyerr + pydict" where
  "meminfo_loop [] info = Inr info"
| "meminfo_loop (line # lines) info =
     (if py_startswith line ''MemTotal:'' then
        bind_err (second_field_int line) (\<lambda>total_kb.
        bind_err (scaled total_kb 2) (\<lambda>total_gb.
          meminfo_loop lines (dict_set info ''memory_total_gb'' total_gb)))
      else if py_startswith line ''MemAvailable:'' then
        bind_err (second_field_int line) (\<lambda>available_kb.
        bind_err (scaled available_kb 2) (\<lambda>available_gb.
          meminfo_loop lines (dict_set info ''memory_available_gb'' available_gb)))
      else meminfo_loop lines info)"

text \<open>\<open>[float(x) for x in xs]\<close>.\<close>

fun floats :: "string list \<Rightarrow> pyerr + pyval list" where
  "floats [] = Inr []"
| "floats (x # xs) =
     (case py_float x of
        None \<Rightarrow> Inl ValueError
      | Some v \<Rightarrow> bind_err (floats xs) (\<lambda>vs. Inr (PFloat v # vs)))"

definition get_linux_system_info :: "fallback_sources \<Rightarrow> pyerr + pydict" where
  "get_linux_system_info src =
     bind_err (case meminfo src of
                 None \<Rightarrow> Inr []
               | Some text \<Rightarrow> meminfo_loop (py_split text ''\<newline>'') []) (\<lambda>info.
       (case loadavg src of
          None \<Rightarrow> Inr info
        | Some text \<Rightarrow>
            bind_err (floats (take 3 (py_split_ws text))) (\<lambda>load_avg.
              Inr (dict_set info ''load_average'' (PList load_avg)))))"

definition get_macos_system_info :: "fallback_sources \<Rightarrow> pyerr + pydict" where
  "get_macos_system_info src =
     (case vm_stat src of
        Inl e \<Rightarrow> (if e = CalledProcessError then Inr [] else Inl e)
      | Inr returncode \<Rightarrow>
          Inr (if returncode = 0 then [(''vm_stat_available'', PBool True)] else []))"

text \<open>\<open>sub in s\<close>.\<close>

fun py_contains :: "string \<Rightarrow> string \<Rightarrow> bool" where
  "py_contains [] sub = (sub = [])"
| "py_contains (c # cs) sub = (py_startswith (c # cs) sub \<or> py_contains cs sub)"

text \<open>
  The loop over the lines of the \<open>wmic\<close> output.  A \<open>ValueError\<close> is caught
  around it: the loop ends and what \<open>info\<close> holds by then is returned.  Any other
  exception ends the query.
\<close>

fun wmic_loop :: "string list \<Rightarrow> pydict \<Rightarrow> pyerr + pydict" where
  "wmic_loop [] info = Inr info"
| "wmic_loop (line # lines) info =
     (if py_contains line ''TotalPhysicalMemory='' then
        (let fields = py_split line ''='' in
         if length fields \<le> 1 then Inl IndexError
         else (case py_int (fields ! 1) of
                 None \<Rightarrow> Inr info
               | Some memory_bytes \<Rightarrow>
                   bind_err (scaled memory_bytes 3) (\<lambda>total_gb.
                     wmic_loop lines (dict_set info ''memory_total_gb'' total_gb))))
      else wmic_loop lines info)"

definition get_windows_system_info :: "fallback_sources \<Rightarrow> pyerr + pydict" where
  "get_windows_system_info src =
     (case wmic src of
        Inl e \<Rightarrow> (if e = CalledProcessError \<or> e = ValueError then Inr [] else Inl e)
      | Inr (returncode, stdout) \<Rightarrow>
          (if returncode = 0 then wmic_loop (py_split stdout ''\<newline>'') [] else Inr []))"

text \<open>
  \<open>_get_system_info_fallback\<close>; \<open>self.system\<close> is
  \<open>platform.system().lower()\<close>.
\<close>

definition get_system_info_fallback ::
    "platform_info \<Rightarrow> fallback_sources \<Rightarrow> pyerr + pydict" where
  "get_system_info_fallback pl src =
     (let info = [(''system'', PStr (platform_system pl)),
                  (''platform'', PStr (platform_platform pl)),
                  (''architecture'', PStr (architecture pl)),
                  (''cpu_cores_logical'',
                     (case os_cpu_count pl of
                        None \<Rightarrow> PStr ''unknown''
                      | Some n \<Rightarrow> if n = 0 then PStr ''unknown'' else PInt n))];
          system = py_lower (platform_system pl)
      in if system = ''linux'' then
           bind_err (get_linux_system_info src) (\<lambda>extra. Inr (dict_update info extra))
         else if system = ''darwin'' then
           bind_err (get_macos_system_info src) (\<lambda>extra. Inr (dict_update info extra))
         else if system = ''windows'' then
           bind_err (get_windows_system_info src) (\<lambda>extra. Inr (dict_update info extra))
         else Inr info)"

subsection \<open>Sample machines\<close>

definition linux_platform :: platform_info where
  "linux_platform =
     \<lparr> platform_system = ''Linux'', platform_platform = ''Linux-6.1-x86_64'',
       architecture = ''64bit'', os_cpu_count = None,
       local_time_string = (\<lambda>t. ''2024-01-01 00:00:00'') \<rparr>"

definition linux_sources :: fallback_sources where
  "linux_sources =
     \<lparr> meminfo = None, loadavg = Some ''0.50 0.25 1.00 1/100 4242'',
       vm_stat = Inl OSError, wmic = Inl OSError \<rparr>"

definition bad_meminfo_sources :: fallback_sources where
  "bad_meminfo_sources =
     \<lparr> meminfo = Some ''MemTotal:       unknown kB'', loadavg = None,
       vm_stat = Inl OSError, wmic = Inl OSError \<rparr>"

definition sample_sys :: "int \<Rightarrow> int list \<Rightarrow> psutil_sys" where
  "sample_sys available pid_list =
     \<lparr> cpu_count = Inr (Some 4), cpu_count_logical = Inr (Some 8),
       cpu_percent_sample = Inr (25 / 2),
       virtual_memory = Inr \<lparr> vm_total = 8589934592, vm_available = available, vm_percent = 50,
                                vm_used = 4294967296, vm_free = available \<rparr>,
       swap_memory = Inr \<lparr> sw_total = 0, sw_used = 0, sw_free = 0, sw_percent = 0,
                             sw_sin = 0, sw_sout = 0 \<rparr>,
       pids = Inr pid_list,
       status_iter = ([''sleeping'', ''running'', ''sleeping''], None),
       boot_time = Inr 1704067200 \<rparr>"


subsection \<open>A sample session\<close>

definition sample_record :: "int \<Rightarrow> rat \<Rightarrow> rat \<Rightarrow> pydict" where
  "sample_record pid cpu mem =
     [(''pid'', PInt pid), (''name'', PStr ''worker''), (''cpu_percent'', PFloat (Fin cpu)),
      (''memory_percent'', PFloat (Fin mem)), (''status'', PStr ''running''),
      (''username'', PStr ''unknown'')]"

definition sample_processes :: "pydict list" where
  "sample_processes =
     [sample_record 1 55 1, sample_record 2 (25 / 2) 20, sample_record 3 3 0]"


section \<open>Properties of the rounding to a double\<close>

lemma bit_length_bounds:
  "0 < n \<Longrightarrow> 2 ^ (bit_length n - 1) \<le> n \<and> n < 2 ^ bit_length n"
proof (induction n rule: bit_length.induct)
  case (1 n)
  show ?case
  proof (cases "n = 1")
    case True
    then show ?thesis by (simp add: bit_length.simps [of 1] bit_length.simps [of 0])
  next
    case False
    with "1.prems" have h: "0 < n div 2" by simp
    from "1.prems" have n: "\<not> n \<le> 0" by simp
    from "1.IH" [OF n h] have lo: "2 ^ (bit_length (n div 2) - 1) \<le> n div 2"
      and hi: "n div 2 < 2 ^ bit_length (n div 2)" by simp_all
    from h have pos: "0 < bit_length (n div 2)"
      by (simp add: bit_length.simps [of "n div 2"])
    have bl: "bit_length n = Suc (bit_length (n div 2))"
      using n by (simp add: bit_length.simps [of n])
    from pos have "(2::int) ^ bit_length (n div 2) = 2 * 2 ^ (bit_length (n div 2) - 1)"
      by (cases "bit_length (n div 2)") simp_all
    with lo have "2 ^ bit_length (n div 2) \<le> 2 * (n div 2)" by simp
    also have "\<dots> \<le> n" by simp
    finally have a: "2 ^ (bit_length n - 1) \<le> n" by (simp add: bl)
    from hi have "n div 2 + 1 \<le> 2 ^ bit_length (n div 2)" by simp
    then have "2 * (n div 2) + 2 \<le> 2 * 2 ^ bit_length (n div 2)" by simp
    moreover have "n < 2 * (n div 2) + 2" by simp
    ultimately have b: "n < 2 ^ bit_length n" by (simp add: bl)
    from a b show ?thesis ..
  qed
qed

lemma bit_length_pos: "0 < n \<Longrightarrow> 0 < bit_length n"
  by (simp add: bit_length.simps [of n])

lemma floor_log2_bounds:
  assumes "0 < a"
  shows "2 powi floor_log2 a \<le> a" and "a < 2 powi (floor_log2 a + 1)"
proof -
  show "2 powi floor_log2 a \<le> a"
  proof (cases "1 \<le> a")
    case True
    then have f: "0 < \<lfloor>a\<rfloor>" by simp
    from bit_length_pos [OF f]
    have k: "floor_log2 a = int (bit_length \<lfloor>a\<rfloor> - 1)"
      using True by (simp add: floor_log2_def)
    from bit_length_bounds [OF f] have "2 ^ (bit_length \<lfloor>a\<rfloor> - 1) \<le> \<lfloor>a\<rfloor>" by simp
    then have "(of_int (2 ^ (bit_length \<lfloor>a\<rfloor> - 1)) :: rat) \<le> of_int \<lfloor>a\<rfloor>"
      by (simp only: of_int_le_iff)
    also have "\<dots> \<le> a" by simp
    finally show ?thesis by (simp add: k)
  next
    case False
    define n where "n = \<lceil>1 / a\<rceil> - 1"
    from False assms have "1 < 1 / a" by simp
    then have "1 < \<lceil>1 / a\<rceil>" by (simp add: less_ceiling_iff)
    then have n: "0 < n" by (simp add: n_def)
    from False have k: "floor_log2 a = - int (bit_length n)"
      by (simp add: floor_log2_def n_def)
    from bit_length_bounds [OF n] have "n + 1 \<le> 2 ^ bit_length n" by simp
    then have "(of_int (n + 1) :: rat) \<le> of_int (2 ^ bit_length n)"
      by (simp only: of_int_le_iff)
    moreover have "1 / a \<le> of_int (n + 1)" by (simp add: n_def)
    ultimately have "1 / a \<le> 2 ^ bit_length n" by simp
    with assms have "1 / 2 ^ bit_length n \<le> a"
      by (simp add: field_simps)
    then show ?thesis by (simp add: k power_int_minus field_simps)
  qed
  show "a < 2 powi (floor_log2 a + 1)"
  proof (cases "1 \<le> a")
    case True
    then have f: "0 < \<lfloor>a\<rfloor>" by simp
    from True have k: "floor_log2 a + 1 = int (bit_length \<lfloor>a\<rfloor>)"
      by (simp add: floor_log2_def)
    from bit_length_bounds [OF f] have "\<lfloor>a\<rfloor> + 1 \<le> 2 ^ bit_length \<lfloor>a\<rfloor>" by simp
    then have "(of_int (\<lfloor>a\<rfloor> + 1) :: rat) \<le> of_int (2 ^ bit_length \<lfloor>a\<rfloor>)"
      by (simp only: of_int_le_iff)
    moreover have "a < of_int (\<lfloor>a\<rfloor> + 1)" using floor_correct [of a] by simp
    ultimately have "a < 2 ^ bit_length \<lfloor>a\<rfloor>" by simp
    then show ?thesis by (simp add: k)
  next
    case False
    define n where "n = \<lceil>1 / a\<rceil> - 1"
    from False assms have "1 < 1 / a" by simp
    then have "1 < \<lceil>1 / a\<rceil>" by (simp add: less_ceiling_iff)
    then have n: "0 < n" by (simp add: n_def)
    from bit_length_pos [OF n] False
    have k: "floor_log2 a + 1 = - int (bit_length n - 1)"
      by (simp add: floor_log2_def n_def)
    from bit_length_bounds [OF n] have "2 ^ (bit_length n - 1) \<le> n" by simp
    then have "(of_int (2 ^ (bit_length n - 1)) :: rat) \<le> of_int n"
      by (simp only: of_int_le_iff)
    then have "(2::rat) ^ (bit_length n - 1) \<le> of_int n" by simp
    moreover have "of_int n < 1 / a" using ceiling_correct [of "1 / a"] by (simp add: n_def)
    ultimately have "2 ^ (bit_length n - 1) < 1 / a" by (rule le_less_trans)
    with assms have lt: "a < 1 / 2 ^ (bit_length n - 1)"
      by (simp add: field_simps)
    have "2 powi (floor_log2 a + 1) = 1 / (2::rat) ^ (bit_length n - 1)"
      by (simp only: k) (simp add: power_int_minus divide_inverse)
    with lt show ?thesis by (simp only:)
  qed
qed

lemma round_half_even_of_int: "round_half_even (of_int z) = z"
  by (simp add: round_half_even_def)


text \<open>A number with a significand of at most 53 bits and an exponent in range is a double.\<close>

lemma to_double_exact:
  assumes q: "q = of_int m * 2 powi e" and m: "\<bar>m\<bar> < 2 ^ 53"
    and lo: "- 1074 \<le> e" and hi: "e \<le> 971"
  shows "to_double q = Fin q"
proof (cases "m = 0")
  case True
  with q show ?thesis by (simp add: to_double_def)
next
  case False
  define a where "a = \<bar>q\<bar>"
  have a: "a = of_int \<bar>m\<bar> * 2 powi e"
    by (simp add: a_def q abs_mult)
  from False have apos: "0 < a" by (simp add: a)
  then have q0: "q \<noteq> 0" by (auto simp: a_def)
  define k where "k = floor_log2 a"
  define ec where "ec = max (k - 52) (- 1074)"
  from m have "(of_int \<bar>m\<bar> :: rat) < of_int (2 ^ 53)" by (simp only: of_int_less_iff)
  then have "(of_int \<bar>m\<bar> :: rat) < 2 powi 53" by simp
  then have "a < 2 powi 53 * 2 powi e"
    unfolding a by (rule mult_strict_right_mono) simp
  then have up: "a < 2 powi (53 + e)" by (simp add: power_int_add)
  have "k < 53 + e"
  proof (rule ccontr)
    assume "\<not> k < 53 + e"
    then have "53 + e \<le> k" by simp
    then have "(2::rat) powi (53 + e) \<le> 2 powi k" by (rule power_int_increasing) simp
    also have "\<dots> \<le> a" unfolding k_def by (rule floor_log2_bounds(1) [OF apos])
    finally show False using up by simp
  qed
  with lo have ec: "ec \<le> e" by (simp add: ec_def)
  define d where "d = nat (e - ec)"
  from ec have e: "e = ec + int d" by (simp add: d_def)
  have "(2::rat) powi e = 2 powi ec * 2 ^ d"
    by (simp add: e power_int_add)
  then have quot: "a / 2 powi ec = of_int (\<bar>m\<bar> * 2 ^ d)"
    by (simp add: a)
  have restore: "of_int (\<bar>m\<bar> * 2 ^ d) * 2 powi ec = a"
    using quot by (simp add: field_simps)
  from hi have "(2::rat) powi (53 + e) \<le> 2 powi 1024"
    by (intro power_int_increasing) simp_all
  with up have small: "\<not> 2 powi 1024 \<le> a" by simp
  have sign: "(if 0 < q then a else - a) = q" by (simp add: a_def)
  have "to_double q
      = (let m' = round_half_even (a / 2 powi ec); v = of_int m' * 2 powi ec
         in if 2 powi 1024 \<le> v then (if 0 < q then PosInf else NegInf)
            else Fin (if 0 < q then v else - v))"
    using q0 by (simp add: to_double_def Let_def a_def k_def ec_def)
  also have "\<dots> = Fin (if 0 < q then a else - a)"
    using small by (simp add: quot round_half_even_of_int restore Let_def del: of_int_mult of_int_power)
  finally show ?thesis by (simp only: sign)
qed

lemma to_double_int: "\<bar>n\<bar> < 2 ^ 53 \<Longrightarrow> to_double (of_int n) = Fin (of_int n)"
  by (rule to_double_exact [where m = n and e = 0]) simp_all

lemma to_double_0: "to_double 0 = Fin 0"
  by (simp add: to_double_def)

lemma to_double_not_NaN: "to_double q \<noteq> NaN"
  by (simp add: to_double_def Let_def)

lemma py_round_not_NaN: "x \<noteq> NaN \<Longrightarrow> py_round x n \<noteq> NaN"
  by (cases x) (simp_all add: to_double_not_NaN)

lemma to_double_numeral:
  "(numeral k :: int) < 2 ^ 53 \<Longrightarrow> to_double (numeral k) = Fin (numeral k)"
  using to_double_int [of "numeral k"] by simp

lemma to_double_1: "to_double 1 = Fin 1"
  using to_double_int [of 1] by simp

lemma to_double_samples:
  "to_double (1 / 2) = Fin (1 / 2)"
  "to_double (3 / 2) = Fin (3 / 2)"
  "to_double (5 / 2) = Fin (5 / 2)"
  "to_double (1 / 4) = Fin (1 / 4)"
proof -
  show "to_double (1 / 2) = Fin (1 / 2)"
    by (rule to_double_exact [where m = 1 and e = "- 1"]) (simp_all add: power_int_minus)
  show "to_double (3 / 2) = Fin (3 / 2)"
    by (rule to_double_exact [where m = 3 and e = "- 1"]) (simp_all add: power_int_minus)
  show "to_double (5 / 2) = Fin (5 / 2)"
    by (rule to_double_exact [where m = 5 and e = "- 1"]) (simp_all add: power_int_minus)
  show "to_double (1 / 4) = Fin (1 / 4)"
    by (rule to_double_exact [where m = 1 and e = "- 2"]) (simp_all add: power_int_minus)
qed

text \<open>The double nearest to one tenth.\<close>

lemma bit_length_9: "bit_length 9 = 4"
  by (simp add: bit_length.simps)

lemma floor_log2_tenth: "floor_log2 (1 / 10) = - 4"
  by (simp add: floor_log2_def bit_length_9)

lemma floor_tenth: "\<lfloor>36028797018963968 / 5 :: rat\<rfloor> = 7205759403792793"
  by (rule floor_unique) simp_all

lemma round_half_even_tenth: "round_half_even ((1 / 10) / 2 powi (- 56)) = 7205759403792794"
  by (simp add: round_half_even_def power_int_minus Let_def floor_tenth)

lemma to_double_tenth: "to_double (1 / 10) = Fin (3602879701896397 / 36028797018963968)"
  using round_half_even_tenth by (simp add: to_double_def floor_log2_tenth Let_def power_int_minus)

section \<open>Properties of the \<open>tasklist\<close> collector\<close>


lemma windows_row_short: "length (windows_parts line) < 5 \<Longrightarrow> windows_row line = Inr None"
  by (simp add: windows_row_def Let_def)

lemma windows_row_long:
  "5 \<le> length (windows_parts line) \<Longrightarrow> py_int (windows_parts line ! 1) = Some pid \<Longrightarrow>
   windows_row line
     = Inr (Some (windows_record (windows_parts line) (windows_memory_mb (windows_parts line)) pid))"
  by (simp add: windows_row_def Let_def)

lemma windows_loop_all_numeric:
  assumes "\<forall>l \<in> set lines. 5 \<le> length (windows_parts l) \<longrightarrow> py_int (windows_parts l ! 1) \<noteq> None"
  shows "windows_loop lines acc
     = (None, acc @ map (\<lambda>l. windows_record (windows_parts l) (windows_memory_mb (windows_parts l))
                                (the (py_int (windows_parts l ! 1))))
                     (filter (\<lambda>l. 5 \<le> length (windows_parts l)) lines))"
  using assms
proof (induction lines arbitrary: acc)
  case Nil
  show ?case by simp
next
  case (Cons line lines)
  show ?case
  proof (cases "5 \<le> length (windows_parts line)")
    case False
    then have "windows_row line = Inr None" by (simp add: windows_row_short)
    with False Cons show ?thesis by simp
  next
    case True
    with Cons.prems obtain pid where pid: "py_int (windows_parts line ! 1) = Some pid" by auto
    from windows_row_long [OF True pid] True pid Cons show ?thesis by simp
  qed
qed

lemmas str_eval = py_split_def py_startswith_def py_strip_def py_strip_chars_def py_isspace_def
  py_split_ws_def py_split_ws_max_def

lemmas num_eval = py_int_def py_float_def num_strip_def num_isspace_def split_sign_def
  is_digitpart_def digitpart_val_def digits_of_def is_digit_def digit_val_def float_mantissa_def
  float_exponent_def is_exp_char_def py_lower_def lower_char_def round_rat_def
  round_half_even_def to_double_numeral to_double_0 to_double_1 to_double_samples

lemma lines_notepad:
  "windows_lines (tasklist_stdout [notepad_row]) = [notepad_row]"
  by (simp add: windows_lines_def tasklist_stdout_def tasklist_header_def notepad_row_def str_eval)

lemma parts_notepad:
  "windows_parts notepad_row = [''notepad.exe'', ''1234'', ''Console'', ''1'', ''10,240 K'']"
  by (simp add: windows_parts_def notepad_row_def str_eval)

lemma int_1234: "py_int ''1234'' = Some 1234"
  by (simp add: str_eval num_eval)

lemma float_10240: "py_float ''10240'' = Some (Fin 10240)"
  by (simp add: str_eval num_eval)

lemma mem_notepad:
  "windows_memory_mb [''notepad.exe'', ''1234'', ''Console'', ''1'', ''10,240 K''] = Fin 10"
  by (simp add: windows_memory_mb_def py_startswith_def float_10240 round_rat_def
      round_half_even_def to_double_numeral)

lemma row_notepad:
  "windows_row notepad_row = Inr (Some
     [(''pid'', PInt 1234), (''name'', PStr ''notepad.exe''), (''cpu_percent'', PFloat (Fin 0)),
      (''memory_percent'', PFloat (Fin 0)), (''memory_mb'', PFloat (Fin 10)),
      (''status'', PStr ''1''), (''username'', PStr ''unknown'')])"
  by (simp add: windows_row_def parts_notepad mem_notepad int_1234 windows_record_def)

text \<open>
  Claim C5.  The \<open>tasklist\<close> row \<open>"notepad.exe","1234","Console","1","10,240 K"\<close>
  yields one record with pid 1234, name \<open>notepad.exe\<close> and \<open>memory_mb\<close> 10.0, the
  latter being the kilobyte field (thousands separator and unit removed) divided by 1024 and
  rounded to one decimal.
\<close>

theorem windows_notepad_scenario:
  "get_processes_windows (Inr (tasklist_stdout [notepad_row]))
     = ([], [[(''pid'', PInt 1234), (''name'', PStr ''notepad.exe''),
              (''cpu_percent'', PFloat (Fin 0)), (''memory_percent'', PFloat (Fin 0)),
              (''memory_mb'', PFloat (py_round (fdiv (Fin 10240) 1024) 1)),
              (''status'', PStr ''1''), (''username'', PStr ''unknown'')]])
   \<and> py_round (fdiv (Fin 10240) 1024) 1 = Fin 10"
  by (simp add: get_processes_windows_def lines_notepad row_notepad round_rat_def
      round_half_even_def to_double_numeral)

lemma lines_idle:
  "windows_lines (tasklist_stdout [notepad_row, idle_row]) = [notepad_row, idle_row]"
  by (simp add: windows_lines_def tasklist_stdout_def tasklist_header_def notepad_row_def
      idle_row_def str_eval)

lemma parts_idle:
  "windows_parts idle_row = [''System Idle Process'', ''0'', ''Services'', ''0'', ''N/A'']"
  by (simp add: windows_parts_def idle_row_def str_eval)

lemma int_0: "py_int ''0'' = Some 0"
  by (simp add: str_eval num_eval)

lemma float_NA: "py_float ''N/A'' = None"
  by (simp add: str_eval num_eval)

lemma mem_idle:
  "windows_memory_mb [''System Idle Process'', ''0'', ''Services'', ''0'', ''N/A''] = Fin 0"
  by (simp add: windows_memory_mb_def py_startswith_def float_NA)

lemma row_idle:
  "windows_row idle_row = Inr (Some
     [(''pid'', PInt 0), (''name'', PStr ''System Idle Process''), (''cpu_percent'', PFloat (Fin 0)),
      (''memory_percent'', PFloat (Fin 0)), (''memory_mb'', PFloat (Fin 0)),
      (''status'', PStr ''0''), (''username'', PStr ''unknown'')])"
  by (simp add: windows_row_def parts_idle mem_idle int_0 windows_record_def)

text \<open>
  Claim C3, as stated, fails: a row whose memory field is not numeric (\<open>N/A\<close>) is not
  dropped.  The code converts the memory field inside its own \<open>try\<close> and falls back
  to 0.0, so the row is emitted like any other.
\<close>

theorem windows_malformed_memory_kept:
  "snd (get_processes_windows (Inr (tasklist_stdout [notepad_row, idle_row])))
     = [[(''pid'', PInt 1234), (''name'', PStr ''notepad.exe''),
         (''cpu_percent'', PFloat (Fin 0)), (''memory_percent'', PFloat (Fin 0)),
         (''memory_mb'', PFloat (Fin 10)), (''status'', PStr ''1''),
         (''username'', PStr ''unknown'')],
        [(''pid'', PInt 0), (''name'', PStr ''System Idle Process''),
         (''cpu_percent'', PFloat (Fin 0)), (''memory_percent'', PFloat (Fin 0)),
         (''memory_mb'', PFloat (Fin 0)), (''status'', PStr ''0''),
         (''username'', PStr ''unknown'')]]"
  by (simp add: get_processes_windows_def lines_idle row_notepad row_idle)

lemma lines_badpid:
  "windows_lines (tasklist_stdout [notepad_row, badpid_row, notepad_row])
     = [notepad_row, badpid_row, notepad_row]"
  by (simp add: windows_lines_def tasklist_stdout_def tasklist_header_def notepad_row_def
      badpid_row_def str_eval)

lemma parts_badpid:
  "windows_parts badpid_row = [''svchost.exe'', ''N/A'', ''Services'', ''0'', ''5,120 K'']"
  by (simp add: windows_parts_def badpid_row_def str_eval)

lemma row_badpid: "windows_row badpid_row = Inl ValueError"
  by (simp add: windows_row_def parts_badpid str_eval num_eval)

text \<open>
  A row whose pid is not numeric is a different matter: \<open>int(parts[1])\<close> is outside
  the inner \<open>try\<close>, the exception leaves the loop, and the rows behind it are lost.
\<close>

lemma windows_bad_pid_truncates:
  "get_processes_windows (Inr (tasklist_stdout [notepad_row, badpid_row, notepad_row]))
     = ([Error_parsing_tasklist ValueError],
        [[(''pid'', PInt 1234), (''name'', PStr ''notepad.exe''),
          (''cpu_percent'', PFloat (Fin 0)), (''memory_percent'', PFloat (Fin 0)),
          (''memory_mb'', PFloat (Fin 10)), (''status'', PStr ''1''),
          (''username'', PStr ''unknown'')]])"
  by (simp add: get_processes_windows_def lines_badpid row_notepad row_badpid)

lemma snd_get_processes_windows:
  "snd (get_processes_windows (Inr stdout)) = snd (windows_loop (windows_lines stdout) [])"
  by (simp add: get_processes_windows_def split: prod.splits option.splits)







text \<open>
  Claim C3, amended.  Provided every row with five or more fields has a numeric pid, nothing
  is printed and the list returned holds exactly one record per row with five or more
  fields, in row order: a row with fewer than five fields is dropped on its own, the rows
  around it are parsed, and a row with a non-numeric memory field is kept (its
  \<open>memory_mb\<close> is then 0.0 by \<open>windows_memory_mb\<close>).
\<close>

theorem windows_rows_parsed_individually:
  assumes "\<forall>l \<in> set (windows_lines stdout).
             5 \<le> length (windows_parts l) \<longrightarrow> py_int (windows_parts l ! 1) \<noteq> None"
  shows "get_processes_windows (Inr stdout)
           = ([], map (\<lambda>l. windows_record (windows_parts l) (windows_memory_mb (windows_parts l))
                              (the (py_int (windows_parts l ! 1))))
                      (filter (\<lambda>l. 5 \<le> length (windows_parts l)) (windows_lines stdout)))"
  using windows_loop_all_numeric [OF assms, of "[]"]
  by (simp add: get_processes_windows_def)

lemma lines_short:
  "windows_lines (tasklist_stdout [notepad_row, short_row, idle_row])
     = [notepad_row, short_row, idle_row]"
  by (simp add: windows_lines_def tasklist_stdout_def tasklist_header_def notepad_row_def
      short_row_def idle_row_def str_eval)

lemma parts_short: "windows_parts short_row = [''cmd.exe'', ''77'', ''Console'']"
  by (simp add: windows_parts_def short_row_def str_eval)

theorem windows_rows_parsed_individually_witness:
  "get_processes_windows (Inr (tasklist_stdout [notepad_row, short_row, idle_row]))
     = ([], [[(''pid'', PInt 1234), (''name'', PStr ''notepad.exe''),
              (''cpu_percent'', PFloat (Fin 0)), (''memory_percent'', PFloat (Fin 0)),
              (''memory_mb'', PFloat (Fin 10)), (''status'', PStr ''1''),
              (''username'', PStr ''unknown'')],
             [(''pid'', PInt 0), (''name'', PStr ''System Idle Process''),
              (''cpu_percent'', PFloat (Fin 0)), (''memory_percent'', PFloat (Fin 0)),
              (''memory_mb'', PFloat (Fin 0)), (''status'', PStr ''0''),
              (''username'', PStr ''unknown'')]])"
proof -
  have "\<forall>l \<in> set (windows_lines (tasklist_stdout [notepad_row, short_row, idle_row])).
          5 \<le> length (windows_parts l) \<longrightarrow> py_int (windows_parts l ! 1) \<noteq> None"
    by (simp add: lines_short parts_notepad parts_short parts_idle int_1234 int_0)
  from windows_rows_parsed_individually [OF this] show ?thesis
    by (simp add: lines_short parts_notepad parts_short parts_idle int_1234 int_0
        mem_notepad mem_idle windows_record_def)
qed

section \<open>Properties of the \<open>ps\<close> and \<open>/proc\<close> collectors\<close>

lemma lines_ps: "ps_lines ps_stdout = [ps_row_init, ps_row_python]"
  by (simp add: ps_lines_def ps_stdout_def ps_header_def ps_row_init_def ps_row_python_def str_eval)

lemma parts_ps_init:
  "py_split_ws_max ps_row_init 5 = [''1'', ''init'', ''1.5'', ''0.1'', ''Ss'', ''root'']"
  by (simp add: ps_row_init_def py_split_ws_max_def py_isspace_def)

lemma parts_ps_python:
  "py_split_ws_max ps_row_python 5 = [''42'', ''python3'', ''40.0'', ''2.5'', ''R+'', ''alice'']"
  by (simp add: ps_row_python_def py_split_ws_max_def py_isspace_def)

lemma int_1: "py_int ''1'' = Some 1"
  by (simp add: str_eval num_eval)

lemma int_42: "py_int ''42'' = Some 42"
  by (simp add: str_eval num_eval)

lemma float_1_5: "py_float ''1.5'' = Some (Fin (3 / 2))"
  by (simp add: str_eval num_eval)

lemma float_0_1: "py_float ''0.1'' = Some (Fin (3602879701896397 / 36028797018963968))"
  by (simp add: str_eval num_eval to_double_tenth)

lemma float_40_0: "py_float ''40.0'' = Some (Fin 40)"
  by (simp add: str_eval num_eval)

lemma float_2_5: "py_float ''2.5'' = Some (Fin (5 / 2))"
  by (simp add: str_eval num_eval)

lemma row_ps_init:
  "ps_row ps_row_init
     = Some [(''pid'', PInt 1), (''name'', PStr ''init''), (''cpu_percent'', PFloat (Fin (3 / 2))),
             (''memory_percent'', PFloat (Fin (3602879701896397 / 36028797018963968))),
             (''status'', PStr ''Ss''),
             (''username'', PStr ''root'')]"
  by (simp add: ps_row_def parts_ps_init int_1 float_1_5 float_0_1)

lemma row_ps_python:
  "ps_row ps_row_python
     = Some [(''pid'', PInt 42), (''name'', PStr ''python3''), (''cpu_percent'', PFloat (Fin 40)),
             (''memory_percent'', PFloat (Fin (5 / 2))), (''status'', PStr ''R+''),
             (''username'', PStr ''alice'')]"
  by (simp add: ps_row_def parts_ps_python int_42 float_40_0 float_2_5)

lemma ps_sample:
  "get_processes_ps (Inr ps_stdout)
     = ([], [[(''pid'', PInt 1), (''name'', PStr ''init''), (''cpu_percent'', PFloat (Fin (3 / 2))),
              (''memory_percent'', PFloat (Fin (3602879701896397 / 36028797018963968))),
             (''status'', PStr ''Ss''),
              (''username'', PStr ''root'')],
             [(''pid'', PInt 42), (''name'', PStr ''python3''), (''cpu_percent'', PFloat (Fin 40)),
              (''memory_percent'', PFloat (Fin (5 / 2))), (''status'', PStr ''R+''),
              (''username'', PStr ''alice'')]])"
  by (simp add: get_processes_ps_def lines_ps List.map_filter_simps row_ps_init row_ps_python)

lemma status_mac: "get_process_status mac_host = get_processes_ps (Inr ps_stdout)"
  by (simp add: get_process_status_def get_processes_fallback_def get_processes_unix_def mac_host_def)

text \<open>
  Claim C1 at a failing input.  Without psutil, on a machine that is neither Windows nor a
  Linux with \<open>/proc\<close>, the list returned is in the order of the rows of \<open>ps\<close>:
  for a row with 1.5 percent CPU followed by one with 40.0 percent, the record with 1.5
  comes first, so the list is not sorted by descending \<open>cpu_percent\<close>.
\<close>
theorem ps_collector_keeps_row_order:
  "map (\<lambda>r. map_of r ''cpu_percent'') (snd (get_process_status mac_host))
     = [Some (PFloat (Fin (3 / 2))), Some (PFloat (Fin 40))]"
  by (simp add: status_mac ps_sample)

lemma stat_sample:
  "py_split_ws sample_stat
     = [''123'', ''(myproc)'', ''S'', ''1'', ''123'', ''123'', ''0'', ''-1'', ''4194560'', ''151'',
        ''0'', ''0'', ''0'']"
  by (simp add: sample_stat_def py_split_ws_def py_isspace_def)

lemma status_lines_sample:
  "file_lines [] sample_status
     = [''Name:   myproc\<newline>'', ''VmPeak:     4096 kB\<newline>'', ''VmRSS:    2048 kB\<newline>'',
        ''Threads:        1\<newline>'']"
  by (simp add: sample_status_def)

lemma vmrss_line: "py_split_ws ''VmRSS:    2048 kB\<newline>'' = [''VmRSS:'', ''2048'', ''kB'']"
  by (simp add: py_split_ws_def py_isspace_def)

lemma int_2048: "py_int ''2048'' = Some 2048"
  by (simp add: str_eval num_eval)

lemma int_123: "py_int ''123'' = Some 123"
  by (simp add: str_eval num_eval)

lemma int_77: "py_int ''77'' = Some 77"
  by (simp add: str_eval num_eval)

lemma scan_sample: "scan_vmrss (file_lines [] sample_status) = Inr 2048"
  by (simp add: status_lines_sample py_startswith_def vmrss_line int_2048)

lemma entry_123:
  "proc_entry sample_procfs ''123''
     = Some [(''pid'', PInt 123), (''name'', PStr ''myproc''), (''cpu_percent'', PFloat (Fin 0)),
             (''memory_percent'', PFloat (Fin 0)), (''memory_kb'', PInt 2048),
             (''status'', PStr ''S''), (''username'', PStr ''unknown'')]"
  by (simp add: proc_entry_def py_isdigit_def isdigit_char_def is_digit_def int_123 sample_procfs_def stat_sample
      scan_sample py_strip_chars_def)

lemma entry_self: "proc_entry sample_procfs ''self'' = None"
  by (simp add: proc_entry_def py_isdigit_def isdigit_char_def is_digit_def)

lemma entry_77: "proc_entry sample_procfs ''77'' = None"
  by (simp add: proc_entry_def py_isdigit_def isdigit_char_def is_digit_def int_77 sample_procfs_def)

text \<open>
  Claim C4, as stated, fails: for a \<open>stat\<close> file \<open>123 (myproc) S ...\<close> and a
  \<open>status\<close> file with the line \<open>VmRSS:    2048 kB\<close> the record holds the
  figure of that line, 2048, under \<open>memory_kb\<close>; no field of it holds
  \<open>2048 * 1024\<close>.
\<close>
theorem proc_record_holds_kilobytes:
  "get_processes_proc sample_procfs
     = [[(''pid'', PInt 123), (''name'', PStr ''myproc''), (''cpu_percent'', PFloat (Fin 0)),
         (''memory_percent'', PFloat (Fin 0)), (''memory_kb'', PInt 2048),
         (''status'', PStr ''S''), (''username'', PStr ''unknown'')]]
   \<and> PInt (2048 * 1024) \<notin> set (map snd (hd (get_processes_proc sample_procfs)))"
  by (simp add: get_processes_proc_def sample_procfs_def List.map_filter_simps
      entry_123 [unfolded sample_procfs_def] entry_self [unfolded sample_procfs_def]
      entry_77 [unfolded sample_procfs_def])


lemma scan_vmrss_skip:
  "list_all (\<lambda>l. \<not> py_startswith l ''VmRSS:'') before
   \<Longrightarrow> scan_vmrss (before @ rest) = scan_vmrss rest"
  by (induction before) simp_all

lemma map_filter_member: "x \<in> set xs \<Longrightarrow> f x = Some y \<Longrightarrow> y \<in> set (List.map_filter f xs)"
  by (force simp: List.map_filter_def)

lemma map_filter_source: "y \<in> set (List.map_filter f xs) \<Longrightarrow> \<exists>x \<in> set xs. f x = Some y"
  by (auto simp: List.map_filter_def)

text \<open>
  Claim C4, amended.  For a directory entry \<open>123\<close> whose \<open>stat\<close> file reads
  \<open>123 (myproc) S\<close> followed by anything, and whose \<open>status\<close> file has
  \<open>VmRSS:    2048 kB\<close> as its first \<open>VmRSS:\<close> line, the collector appends the
  record with pid 123, name \<open>myproc\<close>, status \<open>S\<close>, \<open>cpu_percent\<close> and
  \<open>memory_percent\<close> 0.0 and \<open>memory_kb\<close> 2048 (kilobytes, as read), and the
  list returned holds it.
\<close>
theorem proc_scenario_record:
  assumes listed: "listdir_proc fs = Some entries" "''123'' \<in> set entries"
    and stat: "stat_file fs 123 = Content (''123 (myproc) S '' @ rest)"
    and status: "status_file fs 123 = Content text"
    and lines: "file_lines [] text = before @ ''VmRSS:    2048 kB\<newline>'' # after"
    and before: "list_all (\<lambda>l. \<not> py_startswith l ''VmRSS:'') before"
  shows "proc_entry fs ''123''
           = Some [(''pid'', PInt 123), (''name'', PStr ''myproc''),
                   (''cpu_percent'', PFloat (Fin 0)), (''memory_percent'', PFloat (Fin 0)),
                   (''memory_kb'', PInt 2048), (''status'', PStr ''S''),
                   (''username'', PStr ''unknown'')]
       \<and> [(''pid'', PInt 123), (''name'', PStr ''myproc''),
          (''cpu_percent'', PFloat (Fin 0)), (''memory_percent'', PFloat (Fin 0)),
          (''memory_kb'', PInt 2048), (''status'', PStr ''S''),
          (''username'', PStr ''unknown'')] \<in> set (get_processes_proc fs)"
proof -
  define stat_text where "stat_text = ''123 (myproc) S '' @ rest"
  have split: "py_split_ws stat_text = ''123'' # ''(myproc)'' # ''S'' # split_ws [] rest"
    by (simp add: stat_text_def py_split_ws_def py_isspace_def)
  from stat have stat': "stat_file fs 123 = Content stat_text"
    by (simp add: stat_text_def)
  have "scan_vmrss (file_lines [] text) = scan_vmrss (''VmRSS:    2048 kB\<newline>'' # after)"
    using scan_vmrss_skip [OF before] lines by simp
  then have scan: "scan_vmrss (file_lines [] text) = Inr 2048"
    by (simp add: py_startswith_def vmrss_line int_2048)
  have entry: "proc_entry fs ''123''
           = Some [(''pid'', PInt 123), (''name'', PStr ''myproc''),
                   (''cpu_percent'', PFloat (Fin 0)), (''memory_percent'', PFloat (Fin 0)),
                   (''memory_kb'', PInt 2048), (''status'', PStr ''S''),
                   (''username'', PStr ''unknown'')]"
    by (simp add: proc_entry_def py_isdigit_def isdigit_char_def is_digit_def int_123 stat' status split scan
        py_strip_chars_def)
  from map_filter_member [of "''123''" entries "proc_entry fs", OF listed(2) entry] listed(1) entry
  show ?thesis
    by (simp add: get_processes_proc_def)
qed

theorem proc_scenario_record_witness:
  "listdir_proc sample_procfs = Some [''123'', ''self'', ''77'']
   \<and> stat_file sample_procfs 123 = Content (''123 (myproc) S '' @ ''1 123 123 0 -1 4194560 151 0 0 0'')
   \<and> status_file sample_procfs 123 = Content sample_status
   \<and> file_lines [] sample_status
        = [''Name:   myproc\<newline>'', ''VmPeak:     4096 kB\<newline>'']
          @ ''VmRSS:    2048 kB\<newline>'' # [''Threads:        1\<newline>'']
   \<and> [(''pid'', PInt 123), (''name'', PStr ''myproc''),
      (''cpu_percent'', PFloat (Fin 0)), (''memory_percent'', PFloat (Fin 0)),
      (''memory_kb'', PInt 2048), (''status'', PStr ''S''),
      (''username'', PStr ''unknown'')] \<in> set (get_processes_proc sample_procfs)"
proof -
  have a: "listdir_proc sample_procfs = Some [''123'', ''self'', ''77'']"
    by (simp add: sample_procfs_def)
  have b: "''123'' \<in> set [''123'', ''self'', ''77'']" by simp
  have c: "stat_file sample_procfs 123
             = Content (''123 (myproc) S '' @ ''1 123 123 0 -1 4194560 151 0 0 0'')"
    by (simp add: sample_procfs_def sample_stat_def)
  have d: "status_file sample_procfs 123 = Content sample_status"
    by (simp add: sample_procfs_def)
  have e: "file_lines [] sample_status
        = [''Name:   myproc\<newline>'', ''VmPeak:     4096 kB\<newline>'']
          @ ''VmRSS:    2048 kB\<newline>'' # [''Threads:        1\<newline>'']"
    by (simp add: status_lines_sample)
  have f: "list_all (\<lambda>l. \<not> py_startswith l ''VmRSS:'')
             [''Name:   myproc\<newline>'', ''VmPeak:     4096 kB\<newline>'']"
    by (simp add: py_startswith_def)
  from proc_scenario_record [OF a b c d e f] a c d e show ?thesis by (intro conjI) simp_all
qed

section \<open>Order and fields of the records collected\<close>

text \<open>
  With psutil the list returned is sorted by descending \<open>cpu_percent\<close>, and records
  with equal \<open>cpu_percent\<close> keep the order in which the loop appended them.
\<close>

lemma py_sorted_reverse_set: "set (py_sorted_reverse k xs) = set xs"
  by (simp add: py_sorted_reverse_def)

lemma py_sorted_reverse_descending:
  "sorted_wrt (\<lambda>a b. k a \<ge> k b) (py_sorted_reverse k xs)"
proof -
  have "sorted (map k (sort_key k (rev xs)))" by (rule sorted_sort_key)
  then have "sorted_wrt (\<lambda>a b. k a \<le> k b) (sort_key k (rev xs))"
    by (simp add: sorted_map)
  then show ?thesis
    by (simp add: py_sorted_reverse_def sorted_wrt_rev)
qed

lemma py_sorted_reverse_stable:
  "filter (\<lambda>x. k x = c) (py_sorted_reverse k xs) = filter (\<lambda>x. k x = c) xs"
proof -
  have "filter (\<lambda>x. k x = c) (sort_key k (rev xs)) = filter (\<lambda>x. k x = c) (rev xs)"
    by (rule sort_key_stable)
  then show ?thesis
    by (simp add: py_sorted_reverse_def rev_filter [symmetric])
qed

lemma psutil_loop_append:
  "psutil_loop procs acc = (fst (psutil_loop procs []), acc @ snd (psutil_loop procs []))"
proof (induction procs arbitrary: acc)
  case Nil
  show ?case by simp
next
  case (Cons proc procs)
  show ?case
  proof (cases "psutil_row proc")
    case (Inl e)
    with Cons.IH [of acc] show ?thesis by simp
  next
    case (Inr r)
    with Cons.IH [of "acc @ [r]"] Cons.IH [of "[r]"] show ?thesis by simp
  qed
qed

lemma psutil_loop_source:
  "r \<in> set (snd (psutil_loop procs acc))
   \<Longrightarrow> r \<in> set acc \<or> (\<exists>proc \<in> set procs. psutil_row proc = Inr r)"
proof (induction procs arbitrary: acc)
  case Nil
  then show ?case by simp
next
  case (Cons proc procs)
  show ?case
  proof (cases "psutil_row proc")
    case (Inl e)
    with Cons.prems Cons.IH [of acc] show ?thesis by (auto split: if_splits)
  next
    case (Inr r')
    with Cons.prems Cons.IH [of "acc @ [r']"] show ?thesis by auto
  qed
qed

lemma snd_get_processes_psutil:
  "snd (get_processes_psutil it)
     = py_sorted_reverse cpu_percent_key (snd (psutil_loop (fst it) []))"
  by (simp add: get_processes_psutil_def split: prod.splits option.splits)

lemma psutil_row_cpu_percent:
  assumes "psutil_row proc = Inr r"
  shows "\<exists>c. map_of r ''cpu_percent'' = Some (PFloat c) \<and> c \<noteq> NaN
             \<and> cpu_percent_key r = float_key c"
  using assms
  by (auto simp: psutil_row_def cpu_percent_key_def Let_def to_double_not_NaN
      split: sum.splits option.splits)

lemma psutil_sorted_descending:
  "sorted_wrt (\<lambda>a b. cpu_percent_key a \<ge> cpu_percent_key b) (snd (get_processes_psutil it))"
  by (simp add: snd_get_processes_psutil py_sorted_reverse_descending)

lemma psutil_sorted_stable:
  "filter (\<lambda>r. cpu_percent_key r = c) (snd (get_processes_psutil it))
     = filter (\<lambda>r. cpu_percent_key r = c) (snd (psutil_loop (fst it) []))"
  by (simp add: snd_get_processes_psutil py_sorted_reverse_stable)


lemma psutil_row_fields:
  assumes "psutil_row proc = Inr r"
  shows "map_of r ''pid'' = Some (PInt (info_pid proc))"
    and "map_of r ''name'' = Some (PStr (str_or (info_name proc) ''Unknown''))"
    and "\<exists>c. map_of r ''cpu_percent'' = Some (PFloat c)"
    and "\<exists>m. map_of r ''memory_percent'' = Some (PFloat m)"
    and "info_memory_percent proc = None \<Longrightarrow> map_of r ''memory_percent'' = Some (PFloat (Fin 0))"
    and "map_of r ''status'' = Some (PStr (str_or (info_status proc) ''unknown''))"
    and "map_of r ''username'' = Some (PStr (str_or (info_username proc) ''unknown''))"
    and "\<exists>rss. map_of r ''rss'' = Some (PInt rss)"
    and "\<exists>vms. map_of r ''vms'' = Some (PInt vms)"
    and "info_memory_info proc = None
         \<Longrightarrow> map_of r ''rss'' = Some (PInt 0) \<and> map_of r ''vms'' = Some (PInt 0)"
  using assms
  by (auto simp: psutil_row_def Let_def round_rat_def round_half_even_def to_double_0
      split: sum.splits option.splits)

lemma str_or_nonempty: "d \<noteq> [] \<Longrightarrow> str_or x d \<noteq> []"
  by (simp add: str_or_def split: option.splits)

lemma windows_loop_source:
  "r \<in> set (snd (windows_loop lines acc))
   \<Longrightarrow> r \<in> set acc \<or> (\<exists>line \<in> set lines. windows_row line = Inr (Some r))"
proof (induction lines arbitrary: acc)
  case Nil
  then show ?case by simp
next
  case (Cons line lines)
  show ?case
  proof (cases "windows_row line")
    case (Inl e)
    with Cons.prems show ?thesis by simp
  next
    case (Inr ro)
    show ?thesis
    proof (cases ro)
      case None
      with Inr Cons.prems Cons.IH [of acc] show ?thesis by auto
    next
      case (Some r')
      with Inr Cons.prems Cons.IH [of "acc @ [r']"] show ?thesis by auto
    qed
  qed
qed

lemma windows_row_fields:
  assumes "windows_row line = Inr (Some r)"
  shows "\<exists>pid. map_of r ''pid'' = Some (PInt pid)"
    and "\<exists>name. map_of r ''name'' = Some (PStr name)"
    and "map_of r ''cpu_percent'' = Some (PFloat (Fin 0))"
    and "map_of r ''memory_percent'' = Some (PFloat (Fin 0))"
    and "\<exists>s. map_of r ''status'' = Some (PStr s)"
    and "map_of r ''username'' = Some (PStr ''unknown'')"
    and "map_of r ''rss'' = None" and "map_of r ''vms'' = None"
    and "\<exists>mb. map_of r ''memory_mb'' = Some (PFloat mb)"
  using assms
  by (auto simp: windows_row_def windows_record_def Let_def split: if_splits option.splits)

lemma proc_entry_fields:
  assumes "proc_entry fs pid_dir = Some r"
  shows "\<exists>pid. map_of r ''pid'' = Some (PInt pid)"
    and "\<exists>name. map_of r ''name'' = Some (PStr name)"
    and "map_of r ''cpu_percent'' = Some (PFloat (Fin 0))"
    and "map_of r ''memory_percent'' = Some (PFloat (Fin 0))"
    and "\<exists>s. map_of r ''status'' = Some (PStr s)"
    and "map_of r ''username'' = Some (PStr ''unknown'')"
    and "map_of r ''rss'' = None" and "map_of r ''vms'' = None"
    and "\<exists>kb. map_of r ''memory_kb'' = Some (PInt kb)"
  using assms
  by (auto simp: proc_entry_def Let_def split: if_splits option.splits file_read.splits sum.splits)

lemma ps_row_fields:
  assumes "ps_row line = Some r"
  shows "\<exists>pid. map_of r ''pid'' = Some (PInt pid)"
    and "\<exists>name. map_of r ''name'' = Some (PStr name)"
    and "\<exists>c. map_of r ''cpu_percent'' = Some (PFloat c)"
    and "\<exists>m. map_of r ''memory_percent'' = Some (PFloat m)"
    and "\<exists>s. map_of r ''status'' = Some (PStr s)"
    and "\<exists>u. map_of r ''username'' = Some (PStr u)"
    and "map_of r ''rss'' = None" and "map_of r ''vms'' = None"
    and "map_of r ''memory_mb'' = None" and "map_of r ''memory_kb'' = None"
  using assms
  by (auto simp: ps_row_def Let_def split: if_splits option.splits)


lemma branch_psutil_row:
  assumes "r \<in> set (snd (get_process_status h))" and "psutil_available h"
  shows "\<exists>proc. psutil_row proc = Inr r"
proof -
  from assms have "r \<in> set (snd (psutil_loop (fst (process_iter h)) []))"
    by (simp add: get_process_status_def snd_get_processes_psutil py_sorted_reverse_set)
  from psutil_loop_source [OF this] show ?thesis by auto
qed

lemma branch_psutil:
  assumes "r \<in> set (snd (get_process_status h))" and True: "psutil_available h"
  shows "\<exists>proc \<in> set (fst (process_iter h)).
               psutil_row proc = Inr r
               \<and> map_of r ''name'' = Some (PStr (str_or (info_name proc) ''Unknown''))
               \<and> str_or (info_name proc) ''Unknown'' \<noteq> []
               \<and> (info_memory_percent proc = None
                    \<longrightarrow> map_of r ''memory_percent'' = Some (PFloat (Fin 0)))
               \<and> (\<exists>rss. map_of r ''rss'' = Some (PInt rss))
               \<and> (\<exists>vms. map_of r ''vms'' = Some (PInt vms))
               \<and> (info_memory_info proc = None
                    \<longrightarrow> map_of r ''rss'' = Some (PInt 0) \<and> map_of r ''vms'' = Some (PInt 0))"
proof -
  from assms have "r \<in> set (snd (psutil_loop (fst (process_iter h)) []))"
    by (simp add: get_process_status_def snd_get_processes_psutil py_sorted_reverse_set)
  from psutil_loop_source [OF this] obtain proc
    where proc: "proc \<in> set (fst (process_iter h))" and row: "psutil_row proc = Inr r"
    by auto
  note f = psutil_row_fields [OF row]
  have ne: "str_or (info_name proc) ''Unknown'' \<noteq> []" by (simp add: str_or_nonempty)
  have i5: "info_memory_percent proc = None
              \<longrightarrow> map_of r ''memory_percent'' = Some (PFloat (Fin 0))"
    by (intro impI) (rule f(5))
  have i10: "info_memory_info proc = None
              \<longrightarrow> map_of r ''rss'' = Some (PInt 0) \<and> map_of r ''vms'' = Some (PInt 0)"
    by (intro impI) (rule f(10))
  from row f(2) ne i5 f(8) f(9) i10
  have "psutil_row proc = Inr r
               \<and> map_of r ''name'' = Some (PStr (str_or (info_name proc) ''Unknown''))
               \<and> str_or (info_name proc) ''Unknown'' \<noteq> []
               \<and> (info_memory_percent proc = None
                    \<longrightarrow> map_of r ''memory_percent'' = Some (PFloat (Fin 0)))
               \<and> (\<exists>rss. map_of r ''rss'' = Some (PInt rss))
               \<and> (\<exists>vms. map_of r ''vms'' = Some (PInt vms))
               \<and> (info_memory_info proc = None
                    \<longrightarrow> map_of r ''rss'' = Some (PInt 0) \<and> map_of r ''vms'' = Some (PInt 0))"
    by (intro conjI)
  then show ?thesis by (rule bexI [where x = proc]) (rule proc)
qed
lemma branch_windows:
  assumes "r \<in> set (snd (get_process_status h))" and False: "\<not> psutil_available h"
    and True: "system h = ''windows''"
  shows "\<exists>line. windows_row line = Inr (Some r)"
proof -
  from False True assms have w: "r \<in> set (snd (get_processes_windows (tasklist h)))"
    by (simp add: get_process_status_def get_processes_fallback_def)
  have "\<exists>lines. r \<in> set (snd (windows_loop lines []))"
  proof (cases "tasklist h")
    case (Inl e)
    with w show ?thesis by (simp add: get_processes_windows_def split: if_splits)
  next
    case (Inr out)
    with w have "r \<in> set (snd (windows_loop (windows_lines out) []))"
      by (simp add: snd_get_processes_windows)
    then show ?thesis ..
  qed
  then obtain lines where "r \<in> set (snd (windows_loop lines []))" ..
  from windows_loop_source [OF this] show ?thesis by auto
qed

lemma branch_proc:
  assumes "r \<in> set (snd (get_process_status h))" and False: "\<not> psutil_available h"
    and notwin: "system h \<noteq> ''windows''" and True: "system h = ''linux'' \<and> proc_exists h"
  shows "\<exists>pid_dir. proc_entry (proc_fs h) pid_dir = Some r"
proof -
  from assms have "r \<in> set (get_processes_proc (proc_fs h))"
    by (simp add: get_process_status_def get_processes_fallback_def get_processes_unix_def)
  then show ?thesis
    by (cases "listdir_proc (proc_fs h)")
       (auto simp: get_processes_proc_def dest: map_filter_source)
qed

lemma branch_ps:
  assumes "r \<in> set (snd (get_process_status h))" and False: "\<not> psutil_available h"
    and notwin: "system h \<noteq> ''windows''" and notproc: "\<not> (system h = ''linux'' \<and> proc_exists h)"
  shows "\<exists>line. ps_row line = Some r"
proof -
  from assms have p: "r \<in> set (snd (get_processes_ps (ps_command h)))"
    by (simp add: get_process_status_def get_processes_fallback_def get_processes_unix_def)
  show ?thesis
  proof (cases "ps_command h")
    case (Inl e)
    with p show ?thesis by (simp add: get_processes_ps_def split: if_splits)
  next
    case (Inr out)
    with p have "r \<in> set (List.map_filter ps_row (ps_lines out))"
      by (simp add: get_processes_ps_def)
    from map_filter_source [OF this] show ?thesis by blast
  qed
qed
lemma psutil_row_sample:
  "psutil_row (sample_psproc 1 (3 / 2)) = Inr (sample_psutil_record 1 (3 / 2))"
  "psutil_row (sample_psproc 2 40) = Inr (sample_psutil_record 2 40)"
  "psutil_row (sample_psproc 3 (3 / 2)) = Inr (sample_psutil_record 3 (3 / 2))"
  by (simp_all add: psutil_row_def sample_psproc_def sample_psutil_record_def str_or_def
      opt_int_def opt_float_def round_rat_def round_half_even_def to_double_0
      to_double_numeral to_double_samples)

lemma cpu_percent_key_sample: "cpu_percent_key (sample_psutil_record pid cpu) = (0, cpu)"
  by (simp add: cpu_percent_key_def sample_psutil_record_def)

lemma psutil_sample:
  "get_process_status psutil_host
     = ([], [sample_psutil_record 2 40, sample_psutil_record 1 (3 / 2),
             sample_psutil_record 3 (3 / 2)])"
  by (simp add: get_process_status_def psutil_host_def get_processes_psutil_def psutil_row_sample
      py_sorted_reverse_def cpu_percent_key_sample)

text \<open>
  Claim C6, as stated, fails: the records of the \<open>ps\<close> collector have the six keys
  below and no other, so no resident or virtual memory size is present in them, with any
  value.
\<close>
theorem ps_records_have_no_memory_size:
  "map (map fst) (snd (get_process_status mac_host))
     = [[''pid'', ''name'', ''cpu_percent'', ''memory_percent'', ''status'', ''username''],
        [''pid'', ''name'', ''cpu_percent'', ''memory_percent'', ''status'', ''username'']]"
  by (simp add: status_mac ps_sample)


lemma fallback_source:
  assumes "r \<in> set (snd (get_process_status h))" and np: "\<not> psutil_available h"
  shows "(\<exists>line. windows_row line = Inr (Some r))
       \<or> (\<exists>pid_dir. proc_entry (proc_fs h) pid_dir = Some r)
       \<or> (\<exists>line. ps_row line = Some r)"
proof (cases "system h = ''windows''")
  case True
  from branch_windows [OF assms True] show ?thesis by (rule disjI1)
next
  case notwin: False
  show ?thesis
  proof (cases "system h = ''linux'' \<and> proc_exists h")
    case True
    from branch_proc [OF assms notwin True] show ?thesis by (rule disjI2 [OF disjI1])
  next
    case False
    from branch_ps [OF assms notwin False] show ?thesis by (rule disjI2 [OF disjI2])
  qed
qed

lemma record_common_fields:
  assumes "r \<in> set (snd (get_process_status h))"
  shows "(\<exists>pid. map_of r ''pid'' = Some (PInt pid))
      \<and> (\<exists>name. map_of r ''name'' = Some (PStr name))
      \<and> (\<exists>c. map_of r ''cpu_percent'' = Some (PFloat c))
      \<and> (\<exists>m. map_of r ''memory_percent'' = Some (PFloat m))
      \<and> (\<exists>s. map_of r ''status'' = Some (PStr s))
      \<and> (\<exists>u. map_of r ''username'' = Some (PStr u))"
proof (cases "psutil_available h")
  case True
  from branch_psutil_row [OF assms True] obtain proc where "psutil_row proc = Inr r" ..
  from psutil_row_fields [OF this] show ?thesis by simp
next
  case False
  from fallback_source [OF assms False] show ?thesis
  proof (elim disjE exE)
    fix line assume "windows_row line = Inr (Some r)"
    from windows_row_fields [OF this] show ?thesis by simp
  next
    fix pid_dir assume "proc_entry (proc_fs h) pid_dir = Some r"
    from proc_entry_fields [OF this] show ?thesis by simp
  next
    fix line assume "ps_row line = Some r"
    from ps_row_fields [OF this] show ?thesis by simp
  qed
qed

lemma fallback_no_rss_vms:
  assumes "r \<in> set (snd (get_process_status h))" and "\<not> psutil_available h"
  shows "map_of r ''rss'' = None \<and> map_of r ''vms'' = None"
  using fallback_source [OF assms]
proof (elim disjE exE)
  fix line assume "windows_row line = Inr (Some r)"
  from windows_row_fields [OF this] show ?thesis by simp
next
  fix pid_dir assume "proc_entry (proc_fs h) pid_dir = Some r"
  from proc_entry_fields [OF this] show ?thesis by simp
next
  fix line assume "ps_row line = Some r"
  from ps_row_fields [OF this] show ?thesis by simp
qed

lemma fallback_zero_percent:
  assumes "r \<in> set (snd (get_process_status h))" and "\<not> psutil_available h"
    and "system h = ''windows'' \<or> system h = ''linux'' \<and> proc_exists h"
  shows "map_of r ''cpu_percent'' = Some (PFloat (Fin 0))
       \<and> map_of r ''memory_percent'' = Some (PFloat (Fin 0))"
proof (cases "system h = ''windows''")
  case True
  from branch_windows [OF assms(1,2) True] obtain line where "windows_row line = Inr (Some r)" ..
  from windows_row_fields [OF this] show ?thesis by simp
next
  case False
  with assms(3) have "system h = ''linux'' \<and> proc_exists h" by simp
  from branch_proc [OF assms(1,2) False this] obtain pid_dir
    where "proc_entry (proc_fs h) pid_dir = Some r" ..
  from proc_entry_fields [OF this] show ?thesis by simp
qed

text \<open>
  Claim C6, amended.  Every record returned by \<open>get_process_status\<close>, whichever
  collector produced it, has \<open>pid\<close> (an integer), \<open>name\<close>, \<open>status\<close>
  and \<open>username\<close> (strings) and \<open>cpu_percent\<close> and \<open>memory_percent\<close>
  (floats).  With psutil the record comes from a process of the iteration, its name is that
  process's name or \<open>Unknown\<close> and never empty, its \<open>memory_percent\<close> is 0.0
  when psutil has none, and \<open>rss\<close> and \<open>vms\<close> are present, 0 when
  \<open>memory_info\<close> is missing.  Without psutil the record has neither \<open>rss\<close>
  nor \<open>vms\<close>; from \<open>tasklist\<close> and from \<open>/proc\<close> its
  \<open>cpu_percent\<close> and \<open>memory_percent\<close> are 0.0.
\<close>
theorem process_record_fields:
  assumes "r \<in> set (snd (get_process_status h))"
  shows "(\<exists>pid. map_of r ''pid'' = Some (PInt pid))
       \<and> (\<exists>name. map_of r ''name'' = Some (PStr name))
       \<and> (\<exists>c. map_of r ''cpu_percent'' = Some (PFloat c))
       \<and> (\<exists>m. map_of r ''memory_percent'' = Some (PFloat m))
       \<and> (\<exists>s. map_of r ''status'' = Some (PStr s))
       \<and> (\<exists>u. map_of r ''username'' = Some (PStr u))
       \<and> (psutil_available h \<longrightarrow>
            (\<exists>proc \<in> set (fst (process_iter h)).
               psutil_row proc = Inr r
               \<and> map_of r ''name'' = Some (PStr (str_or (info_name proc) ''Unknown''))
               \<and> str_or (info_name proc) ''Unknown'' \<noteq> []
               \<and> (info_memory_percent proc = None
                    \<longrightarrow> map_of r ''memory_percent'' = Some (PFloat (Fin 0)))
               \<and> (\<exists>rss. map_of r ''rss'' = Some (PInt rss))
               \<and> (\<exists>vms. map_of r ''vms'' = Some (PInt vms))
               \<and> (info_memory_info proc = None
                    \<longrightarrow> map_of r ''rss'' = Some (PInt 0) \<and> map_of r ''vms'' = Some (PInt 0))))
       \<and> (\<not> psutil_available h \<longrightarrow> map_of r ''rss'' = None \<and> map_of r ''vms'' = None)
       \<and> (\<not> psutil_available h \<and> (system h = ''windows'' \<or> system h = ''linux'' \<and> proc_exists h)
            \<longrightarrow> map_of r ''cpu_percent'' = Some (PFloat (Fin 0))
                \<and> map_of r ''memory_percent'' = Some (PFloat (Fin 0)))"
proof (intro conjI impI)
  note c = record_common_fields [OF assms]
  show "\<exists>pid. map_of r ''pid'' = Some (PInt pid)" by (rule c [THEN conjunct1])
  show "\<exists>name. map_of r ''name'' = Some (PStr name)"
    by (rule c [THEN conjunct2, THEN conjunct1])
  show "\<exists>c. map_of r ''cpu_percent'' = Some (PFloat c)"
    by (rule c [THEN conjunct2, THEN conjunct2, THEN conjunct1])
  show "\<exists>m. map_of r ''memory_percent'' = Some (PFloat m)"
    by (rule c [THEN conjunct2, THEN conjunct2, THEN conjunct2, THEN conjunct1])
  show "\<exists>s. map_of r ''status'' = Some (PStr s)"
    by (rule c [THEN conjunct2, THEN conjunct2, THEN conjunct2, THEN conjunct2, THEN conjunct1])
  show "\<exists>u. map_of r ''username'' = Some (PStr u)"
    by (rule c [THEN conjunct2, THEN conjunct2, THEN conjunct2, THEN conjunct2, THEN conjunct2])
next
  assume "psutil_available h"
  then show "\<exists>proc \<in> set (fst (process_iter h)).
               psutil_row proc = Inr r
               \<and> map_of r ''name'' = Some (PStr (str_or (info_name proc) ''Unknown''))
               \<and> str_or (info_name proc) ''Unknown'' \<noteq> []
               \<and> (info_memory_percent proc = None
                    \<longrightarrow> map_of r ''memory_percent'' = Some (PFloat (Fin 0)))
               \<and> (\<exists>rss. map_of r ''rss'' = Some (PInt rss))
               \<and> (\<exists>vms. map_of r ''vms'' = Some (PInt vms))
               \<and> (info_memory_info proc = None
                    \<longrightarrow> map_of r ''rss'' = Some (PInt 0) \<and> map_of r ''vms'' = Some (PInt 0))"
    by (rule branch_psutil [OF assms])
next
  assume "\<not> psutil_available h"
  from fallback_no_rss_vms [OF assms this]
  show "map_of r ''rss'' = None" and "map_of r ''vms'' = None" by simp_all
next
  assume a: "\<not> psutil_available h \<and> (system h = ''windows'' \<or> system h = ''linux'' \<and> proc_exists h)"
  then have "\<not> psutil_available h"
    and "system h = ''windows'' \<or> system h = ''linux'' \<and> proc_exists h" by simp_all
  from fallback_zero_percent [OF assms this]
  show "map_of r ''cpu_percent'' = Some (PFloat (Fin 0))"
    and "map_of r ''memory_percent'' = Some (PFloat (Fin 0))" by simp_all
qed

theorem process_record_fields_witness:
  "sample_psutil_record 1 (3 / 2) \<in> set (snd (get_process_status psutil_host))
   \<and> map_of (sample_psutil_record 1 (3 / 2)) ''name'' = Some (PStr ''Unknown'')
   \<and> map_of (sample_psutil_record 1 (3 / 2)) ''memory_percent'' = Some (PFloat (Fin 0))
   \<and> map_of (sample_psutil_record 1 (3 / 2)) ''rss'' = Some (PInt 0)
   \<and> map_of (sample_psutil_record 1 (3 / 2)) ''vms'' = Some (PInt 0)"
proof -
  have m: "sample_psutil_record 1 (3 / 2) \<in> set (snd (get_process_status psutil_host))"
    by (simp add: psutil_sample)
  have p: "psutil_available psutil_host" by (simp add: psutil_host_def)
  note t = process_record_fields [OF m]
  from t [THEN conjunct2, THEN conjunct2, THEN conjunct2, THEN conjunct2, THEN conjunct2,
          THEN conjunct2, THEN conjunct1, THEN mp, OF p]
  obtain proc where pm: "proc \<in> set (fst (process_iter psutil_host))"
    and rest: "psutil_row proc = Inr (sample_psutil_record 1 (3 / 2))
        \<and> map_of (sample_psutil_record 1 (3 / 2)) ''name''
                 = Some (PStr (str_or (info_name proc) ''Unknown''))
        \<and> str_or (info_name proc) ''Unknown'' \<noteq> []
        \<and> (info_memory_percent proc = None
              \<longrightarrow> map_of (sample_psutil_record 1 (3 / 2)) ''memory_percent'' = Some (PFloat (Fin 0)))
        \<and> (\<exists>rss. map_of (sample_psutil_record 1 (3 / 2)) ''rss'' = Some (PInt rss))
        \<and> (\<exists>vms. map_of (sample_psutil_record 1 (3 / 2)) ''vms'' = Some (PInt vms))
        \<and> (info_memory_info proc = None
              \<longrightarrow> map_of (sample_psutil_record 1 (3 / 2)) ''rss'' = Some (PInt 0)
                \<and> map_of (sample_psutil_record 1 (3 / 2)) ''vms'' = Some (PInt 0))"
    by (rule bexE)
  from pm have "proc \<in> {sample_psproc 1 (3 / 2), sample_psproc 2 40, sample_psproc 3 (3 / 2)}"
    by (simp add: psutil_host_def)
  then have n: "info_name proc = None" "info_memory_percent proc = None"
    "info_memory_info proc = None"
    by (auto simp: sample_psproc_def)
  from rest n have "map_of (sample_psutil_record 1 (3 / 2)) ''name'' = Some (PStr ''Unknown'')"
    and "map_of (sample_psutil_record 1 (3 / 2)) ''memory_percent'' = Some (PFloat (Fin 0))"
    and "map_of (sample_psutil_record 1 (3 / 2)) ''rss'' = Some (PInt 0)"
    and "map_of (sample_psutil_record 1 (3 / 2)) ''vms'' = Some (PInt 0)"
    by (simp_all add: str_or_def)
  with m show ?thesis by (intro conjI)
qed

section \<open>Properties of the paged view\<close>

lemma navigate_in_range:
  assumes "0 < n" "0 < page_size" "0 \<le> cur" "cur \<le> (n - 1) div page_size"
    and "navigate n page_size cur line = Some next_page"
  shows "0 \<le> next_page \<and> next_page \<le> (n - 1) div page_size"
proof -
  have last_ok: "0 \<le> (n - 1) div page_size"
    using assms(1,2) by (simp add: pos_imp_zdiv_nonneg_iff)
  have next_ok: "cur + 1 \<le> (n - 1) div page_size"
    if "cur * page_size + page_size < n"
  proof -
    from that have "(cur + 1) * page_size \<le> n - 1" by (simp add: algebra_simps)
    with assms(2) show ?thesis
      by (metis div_mult_self_is_m zdiv_mono1 nonzero_mult_div_cancel_right less_irrefl)
  qed
  from assms(5) show ?thesis
    using assms(3,4) last_ok next_ok
    by (auto simp: navigate_def Let_def split: if_splits)
qed

lemma pager_loop_in_range:
  assumes "0 < n" "0 < page_size"
  shows "0 \<le> cur \<Longrightarrow> cur \<le> (n - 1) div page_size \<Longrightarrow>
         p \<in> set (pager_loop n page_size cur lines) \<Longrightarrow>
         0 \<le> p \<and> p \<le> (n - 1) div page_size"
proof (induction lines arbitrary: cur)
  case Nil
  then show ?case by simp
next
  case (Cons line lines)
  show ?case
  proof (cases "navigate n page_size cur line")
    case None
    with Cons.prems show ?thesis by simp
  next
    case (Some next_page)
    from navigate_in_range [OF assms Cons.prems(1,2) Some]
    have "0 \<le> next_page" "next_page \<le> (n - 1) div page_size" by simp_all
    with Cons.IH [of next_page] Cons.prems Some show ?thesis by auto
  qed
qed


text \<open>
  Claim C2.  For a non-empty list (\<open>n\<close> records, \<open>0 < n\<close>) and a positive page
  size, \<open>current_page\<close> lies between 0 and \<open>(n - 1) div page_size\<close> at the start
  and after every line of input, whatever is typed; every single navigation step keeps it
  there; \<open>n\<close> does nothing once the end of the page reaches the total, \<open>p\<close>
  does nothing on page 0, \<open>f\<close> goes to page 0 and \<open>l\<close> to page
  \<open>(n - 1) div page_size\<close>.  With 120 records and pages of 50 the header counts 3
  pages, and \<open>f\<close> followed by five \<open>n\<close> visits the pages 0, 0, 1, 2, 2, 2, 2.
\<close>
theorem pager_page_index_bounded:
  assumes "0 < n" and "0 < page_size"
  shows "(\<forall>p \<in> set (pager_loop n page_size 0 lines). 0 \<le> p \<and> p \<le> (n - 1) div page_size)
       \<and> (\<forall>cur line next_page.
             0 \<le> cur \<and> cur \<le> (n - 1) div page_size
               \<and> navigate n page_size cur line = Some next_page
             \<longrightarrow> 0 \<le> next_page \<and> next_page \<le> (n - 1) div page_size)
       \<and> (\<forall>cur. n \<le> cur * page_size + page_size \<longrightarrow> navigate n page_size cur ''n'' = Some cur)
       \<and> navigate n page_size 0 ''p'' = Some 0
       \<and> (\<forall>cur. navigate n page_size cur ''f'' = Some 0)
       \<and> (\<forall>cur. navigate n page_size cur ''l'' = Some ((n - 1) div page_size))
       \<and> (\<forall>processes p v. length processes = 120 \<and> render processes 50 p = Inr v
             \<longrightarrow> page_count v = 3)
       \<and> pager_loop 120 50 0 [''f'', ''n'', ''n'', ''n'', ''n'', ''n''] = [0, 0, 1, 2, 2, 2, 2]"
proof -
  have last_ok: "0 \<le> (n - 1) div page_size"
    using assms by (simp add: pos_imp_zdiv_nonneg_iff)
  have trace: "\<forall>p \<in> set (pager_loop n page_size 0 lines). 0 \<le> p \<and> p \<le> (n - 1) div page_size"
    using pager_loop_in_range [OF assms, of 0 _ lines] last_ok by blast
  have step: "\<forall>cur line next_page.
             0 \<le> cur \<and> cur \<le> (n - 1) div page_size
               \<and> navigate n page_size cur line = Some next_page
             \<longrightarrow> 0 \<le> next_page \<and> next_page \<le> (n - 1) div page_size"
    using navigate_in_range [OF assms] by blast
  have nxt: "\<forall>cur. n \<le> cur * page_size + page_size \<longrightarrow> navigate n page_size cur ''n'' = Some cur"
    by (simp add: navigate_def py_lower_def lower_char_def)
  have prv: "navigate n page_size 0 ''p'' = Some 0"
    by (simp add: navigate_def py_lower_def lower_char_def)
  have fst: "\<forall>cur. navigate n page_size cur ''f'' = Some 0"
    by (simp add: navigate_def py_lower_def lower_char_def)
  have lst: "\<forall>cur. navigate n page_size cur ''l'' = Some ((n - 1) div page_size)"
    by (simp add: navigate_def py_lower_def lower_char_def)
  have cnt: "\<forall>processes p v. length processes = 120 \<and> render processes 50 p = Inr v
             \<longrightarrow> page_count v = 3"
    by (auto simp: render_def Let_def split: sum.splits option.splits)
  have run: "pager_loop 120 50 0 [''f'', ''n'', ''n'', ''n'', ''n'', ''n''] = [0, 0, 1, 2, 2, 2, 2]"
    by (simp add: navigate_def py_lower_def lower_char_def)
  from trace step nxt prv fst lst cnt run show ?thesis by blast
qed

theorem pager_page_index_bounded_witness:
  "list_all (\<lambda>p. 0 \<le> p \<and> p \<le> 2)
     (pager_loop 120 50 0 [''l'', ''n'', ''P'', ''x'', ''n'', ''n'', ''q'', ''f''])
   \<and> navigate 120 50 2 ''n'' = Some 2
   \<and> navigate 120 50 0 ''p'' = Some 0
   \<and> navigate 120 50 1 ''f'' = Some 0
   \<and> navigate 120 50 0 ''l'' = Some 2
   \<and> pager_loop 120 50 0 [''f'', ''n'', ''n'', ''n'', ''n'', ''n''] = [0, 0, 1, 2, 2, 2, 2]"
proof -
  have pos: "(0::int) < 120" "(0::int) < 50" by simp_all
  note t = pager_page_index_bounded
             [OF pos, of "[''l'', ''n'', ''P'', ''x'', ''n'', ''n'', ''q'', ''f'']"]
  have last_page: "(120 - 1) div 50 = (2::int)" by simp
  from t [THEN conjunct1]
  have a: "list_all (\<lambda>p. 0 \<le> p \<and> p \<le> 2)
             (pager_loop 120 50 0 [''l'', ''n'', ''P'', ''x'', ''n'', ''n'', ''q'', ''f''])"
    unfolding list_all_iff last_page .
  from t [THEN conjunct2, THEN conjunct2, THEN conjunct1]
  have b: "navigate 120 50 2 ''n'' = Some 2" by simp
  from t [THEN conjunct2, THEN conjunct2, THEN conjunct2, THEN conjunct1]
  have c: "navigate 120 50 0 ''p'' = Some 0" .
  from t [THEN conjunct2, THEN conjunct2, THEN conjunct2, THEN conjunct2, THEN conjunct1]
  have d: "navigate 120 50 1 ''f'' = Some 0" by (rule spec)
  from t [THEN conjunct2, THEN conjunct2, THEN conjunct2, THEN conjunct2, THEN conjunct2,
          THEN conjunct1]
  have "navigate 120 50 0 ''l'' = Some ((120 - 1) div 50)" by (rule spec)
  then have e: "navigate 120 50 0 ''l'' = Some 2" unfolding last_page .
  from t [THEN conjunct2, THEN conjunct2, THEN conjunct2, THEN conjunct2, THEN conjunct2,
          THEN conjunct2, THEN conjunct2]
  have f: "pager_loop 120 50 0 [''f'', ''n'', ''n'', ''n'', ''n'', ''n''] = [0, 0, 1, 2, 2, 2, 2]" .
  from a b c d e f show ?thesis by (intro conjI)
qed

lemma count_if_filter:
  "count_if test ps = Inr k \<Longrightarrow> k = int (length (filter (\<lambda>p. test p = Inr True) ps))"
proof (induction ps arbitrary: k)
  case Nil
  then show ?case by simp
next
  case (Cons p ps)
  then show ?case by (auto split: sum.splits if_splits)
qed

lemma render_counts:
  assumes "render processes page_size p = Inr v"
  shows "cpu_intensive v = int (length (filter (\<lambda>d. is_cpu_intensive d = Inr True) processes))"
    and "memory_intensive v = int (length (filter (\<lambda>d. is_memory_intensive d = Inr True) processes))"
  using assms
  by (auto simp: render_def Let_def split: if_splits sum.splits option.splits
      dest: count_if_filter)

lemma render_pages_Page:
  "Page v \<in> set (render_pages processes page_size pages)
   \<Longrightarrow> \<exists>p \<in> set pages. render processes page_size p = Inr v"
proof (induction pages)
  case Nil
  then show ?case by simp
next
  case (Cons p pages)
  then show ?case by (cases "render processes page_size p") auto
qed

lemma display_Page:
  "Page v \<in> set (display_process_status processes page_size lines)
   \<Longrightarrow> \<exists>p. render processes page_size p = Inr v"
  by (auto simp: display_process_status_def split: if_splits dest: render_pages_Page)

text \<open>
  Claim C8.  On every page shown in a session the two counts of the footer are the numbers
  of records, in the whole list collected, whose \<open>cpu_percent\<close> and whose
  \<open>memory_percent\<close> exceed 10.0; they do not depend on the page, so any two pages of
  the session show the same counts.
\<close>
theorem intensive_counts_over_whole_list:
  assumes "Page v \<in> set (display_process_status processes page_size lines)"
    and "Page v' \<in> set (display_process_status processes page_size lines)"
  shows "cpu_intensive v = int (length (filter (\<lambda>d. is_cpu_intensive d = Inr True) processes))
       \<and> memory_intensive v
           = int (length (filter (\<lambda>d. is_memory_intensive d = Inr True) processes))
       \<and> cpu_intensive v' = cpu_intensive v
       \<and> memory_intensive v' = memory_intensive v"
proof -
  from display_Page [OF assms(1)] obtain p where "render processes page_size p = Inr v" ..
  note a = render_counts [OF this]
  from display_Page [OF assms(2)] obtain p' where "render processes page_size p' = Inr v'" ..
  note b = render_counts [OF this]
  from a b show ?thesis by simp
qed

lemma sample_display:
  "display_process_status sample_processes 2 [''n'']
     = [Page \<lparr> page_number = 1, page_count = 2,
               current_processes = [sample_record 1 55 1, sample_record 2 (25 / 2) 20],
               total_count = 3, showing_from = 1, showing_to = 2,
               cpu_intensive = 2, memory_intensive = 1 \<rparr>,
        Page \<lparr> page_number = 2, page_count = 2,
               current_processes = [sample_record 3 3 0],
               total_count = 3, showing_from = 3, showing_to = 3,
               cpu_intensive = 2, memory_intensive = 1 \<rparr>]"
  by (simp add: display_process_status_def sample_processes_def sample_record_def
      navigate_def py_lower_def lower_char_def render_def py_slice_def
      row_error_def item_error_def get_error_def
      is_cpu_intensive_def is_memory_intensive_def)

theorem intensive_counts_over_whole_list_witness:
  "display_process_status sample_processes 2 [''n'']
     = [Page \<lparr> page_number = 1, page_count = 2,
               current_processes = [sample_record 1 55 1, sample_record 2 (25 / 2) 20],
               total_count = 3, showing_from = 1, showing_to = 2,
               cpu_intensive = 2, memory_intensive = 1 \<rparr>,
        Page \<lparr> page_number = 2, page_count = 2,
               current_processes = [sample_record 3 3 0],
               total_count = 3, showing_from = 3, showing_to = 3,
               cpu_intensive = 2, memory_intensive = 1 \<rparr>]
   \<and> int (length (filter (\<lambda>d. is_cpu_intensive d = Inr True) sample_processes)) = 2
   \<and> int (length (filter (\<lambda>d. is_memory_intensive d = Inr True) sample_processes)) = 1"
proof -
  let ?v = "\<lparr> page_number = 1, page_count = 2,
               current_processes = [sample_record 1 55 1, sample_record 2 (25 / 2) 20],
               total_count = 3, showing_from = 1, showing_to = 2,
               cpu_intensive = 2, memory_intensive = 1 \<rparr>"
  let ?v' = "\<lparr> page_number = 2, page_count = 2,
               current_processes = [sample_record 3 3 0],
               total_count = 3, showing_from = 3, showing_to = 3,
               cpu_intensive = 2, memory_intensive = 1 \<rparr>"
  have a: "Page ?v \<in> set (display_process_status sample_processes 2 [''n''])"
    by (simp add: sample_display)
  have b: "Page ?v' \<in> set (display_process_status sample_processes 2 [''n''])"
    by (simp add: sample_display)
  from intensive_counts_over_whole_list [OF a b] sample_display show ?thesis by simp
qed

section \<open>Properties of the system snapshot\<close>

lemma bind_err_Inl: "bind_err (Inl e) f = Inl e"
  by (simp add: bind_err_def)

lemma bind_err_Inr: "bind_err (Inr v) f = f v"
  by (simp add: bind_err_def)

lemma bind_err_result: "bind_err x f = Inr y \<Longrightarrow> \<exists>v. x = Inr v \<and> f v = Inr y"
  by (cases x) (simp_all add: bind_err_def)

lemma same_projection:
  assumes "map_sum id p x = map_sum id p x'"
  shows "(\<exists>e. x = Inl e \<and> x' = Inl e) \<or> (\<exists>v v'. x = Inr v \<and> x' = Inr v' \<and> p v = p v')"
  using assms by (cases x; cases x') simp_all

text \<open>
  Claim C9.  The snapshot built with psutil is a function of what the psutil calls answer:
  two states of the backend that give the same core counts, CPU sample, total, used and
  percentage of memory and of swap, number of pids, process statuses and boot time (or the
  same exception in their place) yield the same printed messages and the same snapshot,
  whatever else differs between them.
\<close>
theorem psutil_snapshot_determined_by_inputs:
  assumes cc: "cpu_count s = cpu_count s'"
    and ccl: "cpu_count_logical s = cpu_count_logical s'"
    and cp: "cpu_percent_sample s = cpu_percent_sample s'"
    and vm: "map_sum id (\<lambda>m. (vm_total m, vm_used m, vm_percent m)) (virtual_memory s)
               = map_sum id (\<lambda>m. (vm_total m, vm_used m, vm_percent m)) (virtual_memory s')"
    and sw: "map_sum id (\<lambda>w. (sw_total w, sw_used w, sw_percent w)) (swap_memory s)
               = map_sum id (\<lambda>w. (sw_total w, sw_used w, sw_percent w)) (swap_memory s')"
    and pd: "map_sum id length (pids s) = map_sum id length (pids s')"
    and st: "status_iter s = status_iter s'"
    and bt: "boot_time s = boot_time s'"
  shows "get_system_info_psutil pl s = get_system_info_psutil pl s'"
proof -
  have body: "bind_err (virtual_memory s) (\<lambda>memory.
        bind_err (swap_memory s) (\<lambda>swap.
        bind_err (pids s) (\<lambda>pid_list. k memory swap pid_list)))
      = bind_err (virtual_memory s') (\<lambda>memory.
        bind_err (swap_memory s') (\<lambda>swap.
        bind_err (pids s') (\<lambda>pid_list. k memory swap pid_list)))"
    if k: "\<And>m m' w w' p p'.
             vm_total m = vm_total m' \<Longrightarrow> vm_used m = vm_used m' \<Longrightarrow> vm_percent m = vm_percent m'
             \<Longrightarrow> sw_total w = sw_total w' \<Longrightarrow> sw_used w = sw_used w'
             \<Longrightarrow> sw_percent w = sw_percent w' \<Longrightarrow> length p = length p'
             \<Longrightarrow> k m w p = k m' w' p'"
    for k :: "svmem \<Rightarrow> sswap \<Rightarrow> int list \<Rightarrow> pyerr + pydict"
  proof -
    from same_projection [OF vm] show ?thesis
    proof (elim disjE exE conjE)
      fix e assume "virtual_memory s = Inl e" "virtual_memory s' = Inl e"
      then show ?thesis by (simp add: bind_err_Inl)
    next
      fix m m' assume m: "virtual_memory s = Inr m" "virtual_memory s' = Inr m'"
        and mp: "(vm_total m, vm_used m, vm_percent m) = (vm_total m', vm_used m', vm_percent m')"
      from same_projection [OF sw] show ?thesis
      proof (elim disjE exE conjE)
        fix e assume "swap_memory s = Inl e" "swap_memory s' = Inl e"
        with m show ?thesis by (simp add: bind_err_Inl bind_err_Inr)
      next
        fix w w' assume w: "swap_memory s = Inr w" "swap_memory s' = Inr w'"
          and wp: "(sw_total w, sw_used w, sw_percent w) = (sw_total w', sw_used w', sw_percent w')"
        from same_projection [OF pd] show ?thesis
        proof (elim disjE exE conjE)
          fix e assume "pids s = Inl e" "pids s' = Inl e"
          with m w show ?thesis by (simp add: bind_err_Inl bind_err_Inr)
        next
          fix p p' assume p: "pids s = Inr p" "pids s' = Inr p'" and pp: "length p = length p'"
          from mp wp pp have "k m w p = k m' w' p'" by (intro k) simp_all
          with m w p show ?thesis by (simp add: bind_err_Inl bind_err_Inr)
        qed
      qed
    qed
  qed
  have "bind_err (virtual_memory s) (\<lambda>memory.
        bind_err (swap_memory s) (\<lambda>swap.
        bind_err (pids s) (\<lambda>pid_list. k cpu_count cpu_count_logical cpu_percent memory swap pid_list)))
      = bind_err (virtual_memory s') (\<lambda>memory.
        bind_err (swap_memory s') (\<lambda>swap.
        bind_err (pids s') (\<lambda>pid_list. k cpu_count cpu_count_logical cpu_percent memory swap pid_list)))"
    if "k = (\<lambda>cpu_count cpu_count_logical cpu_percent memory swap pid_list.
        bind_err (case snd (status_iter s') of
                    Some e \<Rightarrow> Inl e
                  | None \<Rightarrow> Inr (count_statuses (fst (status_iter s')) [])) (\<lambda>status_counts.
        bind_err (boot_time s') (\<lambda>boot.
        bind_err (scaled (vm_total memory) 3) (\<lambda>memory_total_gb.
        bind_err (scaled (vm_used memory) 3) (\<lambda>memory_used_gb.
        bind_err (scaled (sw_total swap) 3) (\<lambda>swap_total_gb.
        bind_err (scaled (sw_used swap) 3) (\<lambda>swap_used_gb.
          Inr [(''cpu_cores_physical'', opt_int cpu_count),
               (''cpu_cores_logical'', opt_int cpu_count_logical),
               (''cpu_percent'', PFloat (Fin cpu_percent)),
               (''memory_total_gb'', memory_total_gb),
               (''memory_used_gb'', memory_used_gb),
               (''memory_percent'', PFloat (Fin (vm_percent memory))),
               (''swap_total_gb'', swap_total_gb),
               (''swap_used_gb'', swap_used_gb),
               (''swap_percent'', PFloat (Fin (sw_percent swap))),
               (''process_count'', PInt (int (length pid_list))),
               (''process_status_counts'', PDict (map (\<lambda>(k, n). (k, PInt n)) status_counts)),
               (''boot_time'', PStr (local_time_string pl boot)),
               (''system'', PStr (platform_system pl)),
               (''platform'', PStr (platform_platform pl)),
               (''architecture'', PStr (architecture pl))])))))))"
    for k cpu_count cpu_count_logical cpu_percent
    by (rule body) (simp add: that)
  then show ?thesis
    unfolding get_system_info_psutil_def cc ccl cp st bt by simp
qed

theorem psutil_snapshot_determined_by_inputs_witness:
  "pids (sample_sys 1 [1, 2, 3]) \<noteq> pids (sample_sys 2 [10, 20, 30])
   \<and> get_system_info_psutil linux_platform (sample_sys 1 [1, 2, 3])
       = get_system_info_psutil linux_platform (sample_sys 2 [10, 20, 30])"
proof -
  have d: "pids (sample_sys 1 [1, 2, 3]) \<noteq> pids (sample_sys 2 [10, 20, 30])"
    by (simp add: sample_sys_def)
  have "get_system_info_psutil linux_platform (sample_sys 1 [1, 2, 3])
       = get_system_info_psutil linux_platform (sample_sys 2 [10, 20, 30])"
    by (rule psutil_snapshot_determined_by_inputs) (simp_all add: sample_sys_def)
  with d show ?thesis by (rule conjI)
qed


lemma map_of_dict_set: "map_of (dict_set d k v) k' = (if k' = k then Some v else map_of d k')"
  by (induction d k v rule: dict_set.induct) auto

lemma map_of_dict_update_absent:
  "map_of e k = None \<Longrightarrow> map_of (dict_update d e) k = map_of d k"
proof (induction d e rule: dict_update.induct)
  case (1 d)
  show ?case by simp
next
  case (2 d k' v e)
  then show ?case by (simp add: map_of_dict_set split: if_splits)
qed

lemma meminfo_loop_other:
  "meminfo_loop lines info = Inr info' \<Longrightarrow> k \<noteq> ''memory_total_gb''
   \<Longrightarrow> k \<noteq> ''memory_available_gb'' \<Longrightarrow> map_of info' k = map_of info k"
proof (induction lines arbitrary: info)
  case Nil
  then show ?case by simp
next
  case (Cons line lines)
  show ?case
  proof (cases "py_startswith line ''MemTotal:''")
    case True
    with Cons.prems(1) obtain v where
      "meminfo_loop lines (dict_set info ''memory_total_gb'' v) = Inr info'"
      by (auto dest!: bind_err_result)
    from Cons.IH [OF this Cons.prems(2,3)] Cons.prems(2) show ?thesis
      by (simp add: map_of_dict_set)
  next
    case False
    show ?thesis
    proof (cases "py_startswith line ''MemAvailable:''")
      case True
      with False Cons.prems(1) obtain v where
        "meminfo_loop lines (dict_set info ''memory_available_gb'' v) = Inr info'"
        by (auto dest!: bind_err_result)
      from Cons.IH [OF this Cons.prems(2,3)] Cons.prems(3) show ?thesis
        by (simp add: map_of_dict_set)
    next
      case notavail: False
      with False Cons.prems(1) have "meminfo_loop lines info = Inr info'" by simp
      from Cons.IH [OF this Cons.prems(2,3)] show ?thesis .
    qed
  qed
qed

lemma meminfo_loop_no_total:
  "meminfo_loop lines info = Inr info'
   \<Longrightarrow> list_all (\<lambda>l. \<not> py_startswith l ''MemTotal:'') lines
   \<Longrightarrow> map_of info' ''memory_total_gb'' = map_of info ''memory_total_gb''"
proof (induction lines arbitrary: info)
  case Nil
  then show ?case by simp
next
  case (Cons line lines)
  from Cons.prems(2) have nt: "\<not> py_startswith line ''MemTotal:''"
    and rest: "list_all (\<lambda>l. \<not> py_startswith l ''MemTotal:'') lines" by simp_all
  show ?case
  proof (cases "py_startswith line ''MemAvailable:''")
    case True
    with nt Cons.prems(1) obtain v where
      "meminfo_loop lines (dict_set info ''memory_available_gb'' v) = Inr info'"
      by (auto dest!: bind_err_result)
    from Cons.IH [OF this rest] show ?thesis by (simp add: map_of_dict_set)
  next
    case False
    with nt Cons.prems(1) have "meminfo_loop lines info = Inr info'" by simp
    from Cons.IH [OF this rest] show ?thesis .
  qed
qed

lemma meminfo_loop_no_available:
  "meminfo_loop lines info = Inr info'
   \<Longrightarrow> list_all (\<lambda>l. \<not> py_startswith l ''MemAvailable:'') lines
   \<Longrightarrow> map_of info' ''memory_available_gb'' = map_of info ''memory_available_gb''"
proof (induction lines arbitrary: info)
  case Nil
  then show ?case by simp
next
  case (Cons line lines)
  from Cons.prems(2) have na: "\<not> py_startswith line ''MemAvailable:''"
    and rest: "list_all (\<lambda>l. \<not> py_startswith l ''MemAvailable:'') lines" by simp_all
  show ?case
  proof (cases "py_startswith line ''MemTotal:''")
    case True
    with Cons.prems(1) obtain v where
      "meminfo_loop lines (dict_set info ''memory_total_gb'' v) = Inr info'"
      by (auto dest!: bind_err_result)
    from Cons.IH [OF this rest] show ?thesis by (simp add: map_of_dict_set)
  next
    case False
    with na Cons.prems(1) have "meminfo_loop lines info = Inr info'" by simp
    from Cons.IH [OF this rest] show ?thesis .
  qed
qed

lemma wmic_loop_other:
  "wmic_loop lines info = Inr info' \<Longrightarrow> k \<noteq> ''memory_total_gb''
   \<Longrightarrow> map_of info' k = map_of info k"
proof (induction lines arbitrary: info)
  case Nil
  then show ?case by simp
next
  case (Cons line lines)
  show ?case
  proof (cases "py_contains line ''TotalPhysicalMemory=''")
    case False
    with Cons.prems(1) have "wmic_loop lines info = Inr info'" by simp
    from Cons.IH [OF this Cons.prems(2)] show ?thesis .
  next
    case True
    show ?thesis
    proof (cases "py_int (py_split line ''='' ! 1)")
      case None
      with True Cons.prems(1) have "info' = info"
        by (simp add: Let_def split: if_splits)
      then show ?thesis by simp
    next
      case (Some b)
      with True Cons.prems(1) obtain v where
        "wmic_loop lines (dict_set info ''memory_total_gb'' v) = Inr info'"
        by (auto simp: Let_def split: if_splits dest!: bind_err_result)
      from Cons.IH [OF this Cons.prems(2)] Cons.prems(2) show ?thesis
        by (simp add: map_of_dict_set)
    qed
  qed
qed


lemma linux_extra:
  assumes "get_linux_system_info src = Inr extra"
  shows "k \<noteq> ''memory_total_gb'' \<Longrightarrow> k \<noteq> ''memory_available_gb'' \<Longrightarrow> k \<noteq> ''load_average''
         \<Longrightarrow> map_of extra k = None"
    and "meminfo src = None
         \<Longrightarrow> map_of extra ''memory_total_gb'' = None \<and> map_of extra ''memory_available_gb'' = None"
    and "loadavg src = None \<Longrightarrow> map_of extra ''load_average'' = None"
    and "meminfo src = Some text
         \<Longrightarrow> list_all (\<lambda>l. \<not> py_startswith l ''MemTotal:'') (py_split text ''\<newline>'')
         \<Longrightarrow> map_of extra ''memory_total_gb'' = None"
    and "meminfo src = Some text
         \<Longrightarrow> list_all (\<lambda>l. \<not> py_startswith l ''MemAvailable:'') (py_split text ''\<newline>'')
         \<Longrightarrow> map_of extra ''memory_available_gb'' = None"
proof -
  from assms obtain info0 where
    mem: "(case meminfo src of None \<Rightarrow> Inr []
           | Some text \<Rightarrow> meminfo_loop (py_split text ''\<newline>'') []) = Inr info0"
    and load: "(case loadavg src of None \<Rightarrow> Inr info0
           | Some text \<Rightarrow> bind_err (floats (take 3 (py_split_ws text)))
               (\<lambda>load_avg. Inr (dict_set info0 ''load_average'' (PList load_avg)))) = Inr extra"
    unfolding get_linux_system_info_def by (blast dest: bind_err_result)
  have ex: "map_of extra k = map_of info0 k" if "k \<noteq> ''load_average''" for k
  proof (cases "loadavg src")
    case None
    with load show ?thesis by simp
  next
    case (Some content)
    with load obtain load_avg where "extra = dict_set info0 ''load_average'' (PList load_avg)"
      by (auto dest: bind_err_result)
    with that show ?thesis by (simp add: map_of_dict_set)
  qed
  have i0: "map_of info0 k = None" if "k \<noteq> ''memory_total_gb''" "k \<noteq> ''memory_available_gb''" for k
  proof (cases "meminfo src")
    case None
    with mem show ?thesis by auto
  next
    case (Some content)
    with mem have "meminfo_loop (py_split content ''\<newline>'') [] = Inr info0" by simp
    from meminfo_loop_other [OF this that] show ?thesis by simp
  qed
  show "map_of extra k = None"
    if "k \<noteq> ''memory_total_gb''" "k \<noteq> ''memory_available_gb''" "k \<noteq> ''load_average''"
    using that ex [of k] i0 [of k] by simp
  show "map_of extra ''memory_total_gb'' = None \<and> map_of extra ''memory_available_gb'' = None"
    if "meminfo src = None"
  proof -
    from that mem have "info0 = []" by simp
    with ex [of "''memory_total_gb''"] ex [of "''memory_available_gb''"] show ?thesis by simp
  qed
  show "map_of extra ''load_average'' = None" if "loadavg src = None"
  proof -
    from that load have "extra = info0" by simp
    with i0 [of "''load_average''"] show ?thesis by simp
  qed
  show "map_of extra ''memory_total_gb'' = None"
    if "meminfo src = Some text"
      "list_all (\<lambda>l. \<not> py_startswith l ''MemTotal:'') (py_split text ''\<newline>'')"
  proof -
    from that(1) mem have "meminfo_loop (py_split text ''\<newline>'') [] = Inr info0" by simp
    from meminfo_loop_no_total [OF this that(2)] ex [of "''memory_total_gb''"]
    show ?thesis by simp
  qed
  show "map_of extra ''memory_available_gb'' = None"
    if "meminfo src = Some text"
      "list_all (\<lambda>l. \<not> py_startswith l ''MemAvailable:'') (py_split text ''\<newline>'')"
  proof -
    from that(1) mem have "meminfo_loop (py_split text ''\<newline>'') [] = Inr info0" by simp
    from meminfo_loop_no_available [OF this that(2)] ex [of "''memory_available_gb''"]
    show ?thesis by simp
  qed
qed

lemma macos_extra:
  assumes "get_macos_system_info src = Inr extra"
  shows "k \<noteq> ''vm_stat_available'' \<Longrightarrow> map_of extra k = None"
    and "vm_stat src \<noteq> Inr 0 \<Longrightarrow> extra = []"
  using assms
  by (auto simp: get_macos_system_info_def split: sum.splits if_splits)

lemma windows_extra:
  assumes "get_windows_system_info src = Inr extra"
  shows "k \<noteq> ''memory_total_gb'' \<Longrightarrow> map_of extra k = None"
    and "\<forall>out. wmic src \<noteq> Inr (0, out) \<Longrightarrow> extra = []"
proof -
  show "map_of extra k = None" if "k \<noteq> ''memory_total_gb''"
  proof (cases "wmic src")
    case (Inl e)
    with assms show ?thesis by (simp add: get_windows_system_info_def split: if_splits)
  next
    case (Inr out)
    show ?thesis
    proof (cases "fst out = 0")
      case True
      with Inr assms have "wmic_loop (py_split (snd out) ''\<newline>'') [] = Inr extra"
        by (simp add: get_windows_system_info_def split: prod.splits)
      from wmic_loop_other [OF this that] show ?thesis by simp
    next
      case False
      with Inr assms show ?thesis
        by (simp add: get_windows_system_info_def split: prod.splits)
    qed
  qed
  show "extra = []" if "\<forall>out. wmic src \<noteq> Inr (0, out)"
  proof (cases "wmic src")
    case (Inl e)
    with assms show ?thesis by (simp add: get_windows_system_info_def split: if_splits)
  next
    case (Inr out)
    with that have "fst out \<noteq> 0" by (cases out) auto
    with Inr assms show ?thesis
      by (simp add: get_windows_system_info_def split: prod.splits)
  qed
qed

lemma fallback_decompose:
  assumes "get_system_info_fallback pl src = Inr info"
  shows "\<exists>extra.
      info = dict_update
               [(''system'', PStr (platform_system pl)),
                (''platform'', PStr (platform_platform pl)),
                (''architecture'', PStr (architecture pl)),
                (''cpu_cores_logical'',
                   (case os_cpu_count pl of
                      None \<Rightarrow> PStr ''unknown''
                    | Some n \<Rightarrow> if n = 0 then PStr ''unknown'' else PInt n))] extra
    \<and> (if py_lower (platform_system pl) = ''linux'' then get_linux_system_info src = Inr extra
       else if py_lower (platform_system pl) = ''darwin'' then get_macos_system_info src = Inr extra
       else if py_lower (platform_system pl) = ''windows''
         then get_windows_system_info src = Inr extra
       else extra = [])"
proof (cases "py_lower (platform_system pl) = ''linux''")
  case True
  with assms obtain extra where "get_linux_system_info src = Inr extra"
    and "info = dict_update
               [(''system'', PStr (platform_system pl)),
                (''platform'', PStr (platform_platform pl)),
                (''architecture'', PStr (architecture pl)),
                (''cpu_cores_logical'',
                   (case os_cpu_count pl of
                      None \<Rightarrow> PStr ''unknown''
                    | Some n \<Rightarrow> if n = 0 then PStr ''unknown'' else PInt n))] extra"
    unfolding get_system_info_fallback_def Let_def by (auto dest!: bind_err_result)
  with True show ?thesis by (intro exI [of _ extra]) simp
next
  case nl: False
  show ?thesis
  proof (cases "py_lower (platform_system pl) = ''darwin''")
    case True
    with nl assms obtain extra where "get_macos_system_info src = Inr extra"
      and "info = dict_update
               [(''system'', PStr (platform_system pl)),
                (''platform'', PStr (platform_platform pl)),
                (''architecture'', PStr (architecture pl)),
                (''cpu_cores_logical'',
                   (case os_cpu_count pl of
                      None \<Rightarrow> PStr ''unknown''
                    | Some n \<Rightarrow> if n = 0 then PStr ''unknown'' else PInt n))] extra"
      unfolding get_system_info_fallback_def Let_def by (auto dest!: bind_err_result)
    with nl True show ?thesis by (intro exI [of _ extra]) simp
  next
    case nd: False
    show ?thesis
    proof (cases "py_lower (platform_system pl) = ''windows''")
      case True
      with nl nd assms obtain extra where "get_windows_system_info src = Inr extra"
        and "info = dict_update
               [(''system'', PStr (platform_system pl)),
                (''platform'', PStr (platform_platform pl)),
                (''architecture'', PStr (architecture pl)),
                (''cpu_cores_logical'',
                   (case os_cpu_count pl of
                      None \<Rightarrow> PStr ''unknown''
                    | Some n \<Rightarrow> if n = 0 then PStr ''unknown'' else PInt n))] extra"
        unfolding get_system_info_fallback_def Let_def by (auto dest!: bind_err_result)
      with nl nd True show ?thesis by (intro exI [of _ extra]) simp
    next
      case False
      with nl nd assms show ?thesis
        unfolding get_system_info_fallback_def Let_def by (intro exI [of _ "[]"]) simp
    qed
  qed
qed


lemma lower_Linux: "py_lower ''Linux'' = ''linux''"
  by (simp add: py_lower_def lower_char_def)

lemma loadavg_fields:
  "py_split_ws ''0.50 0.25 1.00 1/100 4242'' = [''0.50'', ''0.25'', ''1.00'', ''1/100'', ''4242'']"
  by (simp add: py_split_ws_def py_isspace_def)

lemma float_0_50: "py_float ''0.50'' = Some (Fin (1 / 2))"
  by (simp add: str_eval num_eval)

lemma float_0_25: "py_float ''0.25'' = Some (Fin (1 / 4))"
  by (simp add: str_eval num_eval)

lemma float_1_00: "py_float ''1.00'' = Some (Fin 1)"
  by (simp add: str_eval num_eval)

lemma linux_sample:
  "get_system_info_fallback linux_platform linux_sources
     = Inr [(''system'', PStr ''Linux''), (''platform'', PStr ''Linux-6.1-x86_64''),
            (''architecture'', PStr ''64bit''), (''cpu_cores_logical'', PStr ''unknown''),
            (''load_average'', PList [PFloat (Fin (1 / 2)), PFloat (Fin (1 / 4)), PFloat (Fin 1)])]"
  by (simp add: get_system_info_fallback_def linux_platform_def lower_Linux linux_sources_def
      get_linux_system_info_def bind_err_Inr loadavg_fields float_0_50 float_0_25 float_1_00)

text \<open>
  Claim C7, as stated, fails: when \<open>os.cpu_count()\<close> has no answer, the fallback
  snapshot still has \<open>cpu_cores_logical\<close>, holding the placeholder \<open>unknown\<close>.
\<close>
theorem fallback_core_count_placeholder:
  "os_cpu_count linux_platform = None
   \<and> map_of (projr (get_system_info_fallback linux_platform linux_sources)) ''cpu_cores_logical''
       = Some (PStr ''unknown'')"
  by (simp add: linux_sample) (simp add: linux_platform_def)

text \<open>
  A line of \<open>/proc/meminfo\<close> that does not convert is not swallowed: only
  \<open>OSError\<close> is caught there, and the query ends with the \<open>ValueError\<close>.
\<close>

lemma bad_meminfo_raises:
  "get_system_info_fallback linux_platform bad_meminfo_sources = Inl ValueError"
  by (simp add: get_system_info_fallback_def linux_platform_def lower_Linux bad_meminfo_sources_def
      get_linux_system_info_def bind_err_def str_eval second_field_int_def py_isspace_def num_eval)

lemma psutil_snapshot_empty_on_failure:
  "fst (get_system_info_psutil pl s) \<noteq> [] \<Longrightarrow> snd (get_system_info_psutil pl s) = []"
  by (simp add: get_system_info_psutil_def split: sum.splits)

text \<open>
  Claim C7, amended.  In a snapshot the fallback returns, \<open>cpu_cores_logical\<close> is
  always present, with the placeholder \<open>unknown\<close> when the core count is not
  available; every other optional field whose source cannot be read is absent:
  the two memory figures when \<open>/proc/meminfo\<close> cannot be opened or has no line
  for them, \<open>load_average\<close> when \<open>/proc/loadavg\<close> cannot be opened,
  \<open>vm_stat_available\<close> when \<open>vm_stat\<close> did not return 0,
  \<open>memory_total_gb\<close> on Windows when \<open>wmic\<close> did not return 0, and the
  fields of the other operating systems.
\<close>
theorem fallback_snapshot_omits_unavailable:
  assumes "get_system_info_fallback pl src = Inr info"
  shows "map_of info ''cpu_cores_logical''
           = Some (case os_cpu_count pl of
                     None \<Rightarrow> PStr ''unknown''
                   | Some n \<Rightarrow> if n = 0 then PStr ''unknown'' else PInt n)
       \<and> (py_lower (platform_system pl) = ''linux'' \<and> meminfo src = None
            \<longrightarrow> map_of info ''memory_total_gb'' = None
                \<and> map_of info ''memory_available_gb'' = None)
       \<and> (py_lower (platform_system pl) = ''linux'' \<and> loadavg src = None
            \<longrightarrow> map_of info ''load_average'' = None)
       \<and> (\<forall>content. py_lower (platform_system pl) = ''linux'' \<and> meminfo src = Some content
              \<and> list_all (\<lambda>l. \<not> py_startswith l ''MemTotal:'') (py_split content ''\<newline>'')
            \<longrightarrow> map_of info ''memory_total_gb'' = None)
       \<and> (\<forall>content. py_lower (platform_system pl) = ''linux'' \<and> meminfo src = Some content
              \<and> list_all (\<lambda>l. \<not> py_startswith l ''MemAvailable:'') (py_split content ''\<newline>'')
            \<longrightarrow> map_of info ''memory_available_gb'' = None)
       \<and> (py_lower (platform_system pl) = ''darwin'' \<and> vm_stat src \<noteq> Inr 0
            \<longrightarrow> map_of info ''vm_stat_available'' = None)
       \<and> (py_lower (platform_system pl) = ''windows'' \<and> (\<forall>out. wmic src \<noteq> Inr (0, out))
            \<longrightarrow> map_of info ''memory_total_gb'' = None)
       \<and> (py_lower (platform_system pl) \<noteq> ''linux''
            \<longrightarrow> map_of info ''memory_available_gb'' = None \<and> map_of info ''load_average'' = None)
       \<and> (py_lower (platform_system pl) \<noteq> ''linux'' \<and> py_lower (platform_system pl) \<noteq> ''windows''
            \<longrightarrow> map_of info ''memory_total_gb'' = None)
       \<and> (py_lower (platform_system pl) \<noteq> ''darwin''
            \<longrightarrow> map_of info ''vm_stat_available'' = None)"
proof -
  define base where "base =
    [(''system'', PStr (platform_system pl)),
     (''platform'', PStr (platform_platform pl)),
     (''architecture'', PStr (architecture pl)),
     (''cpu_cores_logical'',
        (case os_cpu_count pl of
           None \<Rightarrow> PStr ''unknown''
         | Some n \<Rightarrow> if n = 0 then PStr ''unknown'' else PInt n))]"
  define sys where "sys = py_lower (platform_system pl)"
  from fallback_decompose [OF assms] obtain extra where
    info: "info = dict_update base extra"
    and src: "if sys = ''linux'' then get_linux_system_info src = Inr extra
       else if sys = ''darwin'' then get_macos_system_info src = Inr extra
       else if sys = ''windows'' then get_windows_system_info src = Inr extra
       else extra = []"
    unfolding base_def sys_def by blast
  have absent: "map_of info k = map_of base k" if "map_of extra k = None" for k
    using that by (simp add: info map_of_dict_update_absent)
  have lin: "get_linux_system_info src = Inr extra" if "sys = ''linux''"
    using src that by simp
  have mac: "get_macos_system_info src = Inr extra" if "sys = ''darwin''"
    using src that by simp
  have win: "get_windows_system_info src = Inr extra" if "sys = ''windows''"
    using src that by simp
  have other: "extra = []" if "sys \<noteq> ''linux''" "sys \<noteq> ''darwin''" "sys \<noteq> ''windows''"
    using src that by simp
  have cores_extra: "map_of extra ''cpu_cores_logical'' = None"
  proof (cases "sys = ''linux''")
    case True
    from linux_extra(1) [OF lin [OF True], of "''cpu_cores_logical''"] show ?thesis by simp
  next
    case nl: False
    show ?thesis
    proof (cases "sys = ''darwin''")
      case True
      from macos_extra(1) [OF mac [OF True], of "''cpu_cores_logical''"] show ?thesis by simp
    next
      case nd: False
      show ?thesis
      proof (cases "sys = ''windows''")
        case True
        from windows_extra(1) [OF win [OF True], of "''cpu_cores_logical''"] show ?thesis by simp
      next
        case False
        from other [OF nl nd False] show ?thesis by simp
      qed
    qed
  qed
  have c1: "map_of info ''cpu_cores_logical''
           = Some (case os_cpu_count pl of
                     None \<Rightarrow> PStr ''unknown''
                   | Some n \<Rightarrow> if n = 0 then PStr ''unknown'' else PInt n)"
    using absent [OF cores_extra] by (simp add: base_def)
  have c2: "sys = ''linux'' \<and> meminfo src = None
            \<longrightarrow> map_of info ''memory_total_gb'' = None
                \<and> map_of info ''memory_available_gb'' = None"
  proof (intro impI, elim conjE)
    assume l: "sys = ''linux''" and m: "meminfo src = None"
    from linux_extra(2) [OF lin [OF l] m]
    have "map_of extra ''memory_total_gb'' = None" "map_of extra ''memory_available_gb'' = None"
      by simp_all
    from absent [OF this(1)] absent [OF this(2)]
    show "map_of info ''memory_total_gb'' = None \<and> map_of info ''memory_available_gb'' = None"
      by (simp add: base_def)
  qed
  have c3: "sys = ''linux'' \<and> loadavg src = None \<longrightarrow> map_of info ''load_average'' = None"
  proof (intro impI, elim conjE)
    assume l: "sys = ''linux''" and m: "loadavg src = None"
    from absent [OF linux_extra(3) [OF lin [OF l] m]]
    show "map_of info ''load_average'' = None" by (simp add: base_def)
  qed
  have c4: "\<forall>content. sys = ''linux'' \<and> meminfo src = Some content
              \<and> list_all (\<lambda>l. \<not> py_startswith l ''MemTotal:'') (py_split content ''\<newline>'')
            \<longrightarrow> map_of info ''memory_total_gb'' = None"
  proof (intro allI impI, elim conjE)
    fix content
    assume l: "sys = ''linux''" and m: "meminfo src = Some content"
      and n: "list_all (\<lambda>l. \<not> py_startswith l ''MemTotal:'') (py_split content ''\<newline>'')"
    from absent [OF linux_extra(4) [OF lin [OF l] m n]]
    show "map_of info ''memory_total_gb'' = None" by (simp add: base_def)
  qed
  have c5: "\<forall>content. sys = ''linux'' \<and> meminfo src = Some content
              \<and> list_all (\<lambda>l. \<not> py_startswith l ''MemAvailable:'') (py_split content ''\<newline>'')
            \<longrightarrow> map_of info ''memory_available_gb'' = None"
  proof (intro allI impI, elim conjE)
    fix content
    assume l: "sys = ''linux''" and m: "meminfo src = Some content"
      and n: "list_all (\<lambda>l. \<not> py_startswith l ''MemAvailable:'') (py_split content ''\<newline>'')"
    from absent [OF linux_extra(5) [OF lin [OF l] m n]]
    show "map_of info ''memory_available_gb'' = None" by (simp add: base_def)
  qed
  have c6: "sys = ''darwin'' \<and> vm_stat src \<noteq> Inr 0 \<longrightarrow> map_of info ''vm_stat_available'' = None"
  proof (intro impI, elim conjE)
    assume l: "sys = ''darwin''" and m: "vm_stat src \<noteq> Inr 0"
    from macos_extra(2) [OF mac [OF l] m] have "map_of extra ''vm_stat_available'' = None" by simp
    from absent [OF this] show "map_of info ''vm_stat_available'' = None" by (simp add: base_def)
  qed
  have c7: "sys = ''windows'' \<and> (\<forall>out. wmic src \<noteq> Inr (0, out))
            \<longrightarrow> map_of info ''memory_total_gb'' = None"
  proof (intro impI, elim conjE)
    assume l: "sys = ''windows''" and m: "\<forall>out. wmic src \<noteq> Inr (0, out)"
    from windows_extra(2) [OF win [OF l] m] have "map_of extra ''memory_total_gb'' = None" by simp
    from absent [OF this] show "map_of info ''memory_total_gb'' = None" by (simp add: base_def)
  qed
  have not_linux: "map_of extra k = None"
    if "sys \<noteq> ''linux''" "k \<noteq> ''vm_stat_available''" "k \<noteq> ''memory_total_gb''" for k
  proof (cases "sys = ''darwin''")
    case True
    from macos_extra(1) [OF mac [OF True] that(2)] show ?thesis .
  next
    case nd: False
    show ?thesis
    proof (cases "sys = ''windows''")
      case True
      from windows_extra(1) [OF win [OF True] that(3)] show ?thesis .
    next
      case False
      from other [OF that(1) nd False] show ?thesis by simp
    qed
  qed
  have c8: "sys \<noteq> ''linux''
            \<longrightarrow> map_of info ''memory_available_gb'' = None \<and> map_of info ''load_average'' = None"
  proof
    assume l: "sys \<noteq> ''linux''"
    from not_linux [OF l, of "''memory_available_gb''"] not_linux [OF l, of "''load_average''"]
    have "map_of extra ''memory_available_gb'' = None" "map_of extra ''load_average'' = None"
      by simp_all
    from absent [OF this(1)] absent [OF this(2)]
    show "map_of info ''memory_available_gb'' = None \<and> map_of info ''load_average'' = None"
      by (simp add: base_def)
  qed
  have c9: "sys \<noteq> ''linux'' \<and> sys \<noteq> ''windows'' \<longrightarrow> map_of info ''memory_total_gb'' = None"
  proof (intro impI, elim conjE)
    assume l: "sys \<noteq> ''linux''" and w: "sys \<noteq> ''windows''"
    have "map_of extra ''memory_total_gb'' = None"
    proof (cases "sys = ''darwin''")
      case True
      from macos_extra(1) [OF mac [OF True], of "''memory_total_gb''"] show ?thesis by simp
    next
      case False
      from other [OF l False w] show ?thesis by simp
    qed
    from absent [OF this] show "map_of info ''memory_total_gb'' = None" by (simp add: base_def)
  qed
  have c10: "sys \<noteq> ''darwin'' \<longrightarrow> map_of info ''vm_stat_available'' = None"
  proof
    assume d: "sys \<noteq> ''darwin''"
    have "map_of extra ''vm_stat_available'' = None"
    proof (cases "sys = ''linux''")
      case True
      from linux_extra(1) [OF lin [OF True], of "''vm_stat_available''"] show ?thesis by simp
    next
      case nl: False
      show ?thesis
      proof (cases "sys = ''windows''")
        case True
        from windows_extra(1) [OF win [OF True], of "''vm_stat_available''"] show ?thesis by simp
      next
        case False
        from other [OF nl d False] show ?thesis by simp
      qed
    qed
    from absent [OF this] show "map_of info ''vm_stat_available'' = None" by (simp add: base_def)
  qed
  from c1 c2 c3 c4 c5 c6 c7 c8 c9 c10 show ?thesis
    unfolding sys_def by (intro conjI)
qed

theorem fallback_snapshot_omits_unavailable_witness:
  "meminfo linux_sources = None
   \<and> map_of (projr (get_system_info_fallback linux_platform linux_sources)) ''memory_total_gb'' = None
   \<and> map_of (projr (get_system_info_fallback linux_platform linux_sources)) ''memory_available_gb''
       = None
   \<and> map_of (projr (get_system_info_fallback linux_platform linux_sources)) ''vm_stat_available''
       = None
   \<and> map_of (projr (get_system_info_fallback linux_platform linux_sources)) ''load_average''
       = Some (PList [PFloat (Fin (1 / 2)), PFloat (Fin (1 / 4)), PFloat (Fin 1)])"
proof -
  let ?info = "projr (get_system_info_fallback linux_platform linux_sources)"
  have r: "get_system_info_fallback linux_platform linux_sources = Inr ?info"
    by (simp add: linux_sample)
  have l: "py_lower (platform_system linux_platform) = ''linux''"
    by (simp add: linux_platform_def lower_Linux)
  have m: "meminfo linux_sources = None" by (simp add: linux_sources_def)
  note t = fallback_snapshot_omits_unavailable [OF r]
  from t [THEN conjunct2, THEN conjunct1] l m
  have a: "map_of ?info ''memory_total_gb'' = None \<and> map_of ?info ''memory_available_gb'' = None"
    by simp
  have "py_lower (platform_system linux_platform) \<noteq> ''darwin''" by (simp add: l)
  with t [THEN conjunct2, THEN conjunct2, THEN conjunct2, THEN conjunct2, THEN conjunct2,
          THEN conjunct2, THEN conjunct2, THEN conjunct2, THEN conjunct2]
  have b: "map_of ?info ''vm_stat_available'' = None" by simp
  have c: "map_of ?info ''load_average''
       = Some (PList [PFloat (Fin (1 / 2)), PFloat (Fin (1 / 4)), PFloat (Fin 1)])"
    by (simp add: linux_sample)
  from m a b c show ?thesis by simp
qed

end
